theory Spec2Isabelle
  imports Main "HOL-Library.Char_ord"
begin

text \<open>
  The client side of the HCP interaction logger: the form component with its field
  normalizer, highlight timers and direct submission (HCPInteractionForm.js), the
  store slice with the chat thunk (interactionsSlice.js), and the chat component that
  applies the assistant's responses to the form (AIAssistantChat). Component state
  is threaded explicitly; an exception is a value \<open>TypeError\<close>. Rendering and scrolling
  are left out, and so is logging, except where building a log line can throw.
\<close>

section \<open>JavaScript values\<close>

text \<open>
  The components exchange JSON values: the chat endpoint's \<open>response.data\<close>, the
  \<open>field\<close> and \<open>value\<close> of an update, the entries of \<open>formData\<close>. A lookup in an
  object literal also reaches \<open>Object.prototype\<close>, so two more kinds of value can flow
  into the form: an inherited built-in function and \<open>Object.prototype\<close> itself.

  A string is the list of the bytes of its UTF-8 form, so an ASCII string is itself.
  Numbers are integers (JSON numbers with a fraction or an exponent are outside the
  model; no claim depends on arithmetic).
\<close>

datatype builtin = BuiltinFunction string | ObjectPrototype

datatype jsvalue =
    JUndefined
  | JNull
  | JBool bool
  | JNum int
  | JStr string
  | JArr "jsvalue list"
  | JObj "(string \<times> jsvalue) list"
  | JBuiltin builtin

datatype error = TypeError

text \<open>
  What is taken from the JavaScript platform as given: \<open>JSON.parse\<close> (with the
  string conversion of its argument; \<open>None\<close> when it throws), and the parts of
  \<open>String.prototype.toLowerCase\<close>, \<open>String.prototype.trim\<close> and
  \<open>Number.prototype.toString\<close> that the model does not compute itself: lower-casing
  and trimming of a string with a character outside ASCII, and the text of an
  integer that is not a safe integer.
\<close>

record platform =
  jsonParse :: "jsvalue \<Rightarrow> jsvalue option"
  unicodeLowerCase :: "string \<Rightarrow> string"
  unicodeTrim :: "string \<Rightarrow> string"
  numberText :: "int \<Rightarrow> string"

text \<open>
  A platform to evaluate with, for payloads that are not JSON. Where every text is
  ASCII and every number a safe integer its last three parts are never consulted.
\<close>

definition asciiPlatform :: platform where
  "asciiPlatform =
    \<lparr>jsonParse = (\<lambda>v. None), unicodeLowerCase = (\<lambda>s. s), unicodeTrim = (\<lambda>s. s),
     numberText = (\<lambda>n. [])\<rparr>"

definition bindE :: "error + 'a \<Rightarrow> ('a \<Rightarrow> error + 'b) \<Rightarrow> error + 'b" where
  "bindE m f = (case m of Inl e \<Rightarrow> Inl e | Inr x \<Rightarrow> f x)"

text \<open>\<open>ToBoolean\<close>: what \<open>if (v)\<close>, \<open>!v\<close> and \<open>v || d\<close> test.\<close>

fun truthy :: "jsvalue \<Rightarrow> bool" where
  "truthy JUndefined = False"
| "truthy JNull = False"
| "truthy (JBool b) = b"
| "truthy (JNum n) = (n \<noteq> 0)"
| "truthy (JStr s) = (s \<noteq> [])"
| "truthy (JArr xs) = True"
| "truthy (JObj ps) = True"
| "truthy (JBuiltin b) = True"

definition orElse :: "jsvalue \<Rightarrow> jsvalue \<Rightarrow> jsvalue" where
  "orElse a b = (if truthy a then a else b)"

text \<open>
  The properties every object literal inherits from \<open>Object.prototype\<close>. The property
  \<open>constructor\<close> is the global function \<open>Object\<close>; \<open>__proto__\<close> is the prototype object.
\<close>

definition objectPrototype :: "(string \<times> builtin) list" where
  "objectPrototype =
    [(''constructor'', BuiltinFunction ''Object''),
     (''hasOwnProperty'', BuiltinFunction ''hasOwnProperty''),
     (''isPrototypeOf'', BuiltinFunction ''isPrototypeOf''),
     (''propertyIsEnumerable'', BuiltinFunction ''propertyIsEnumerable''),
     (''toLocaleString'', BuiltinFunction ''toLocaleString''),
     (''toString'', BuiltinFunction ''toString''),
     (''valueOf'', BuiltinFunction ''valueOf''),
     (''__defineGetter__'', BuiltinFunction ''__defineGetter__''),
     (''__defineSetter__'', BuiltinFunction ''__defineSetter__''),
     (''__lookupGetter__'', BuiltinFunction ''__lookupGetter__''),
     (''__lookupSetter__'', BuiltinFunction ''__lookupSetter__''),
     (''__proto__'', ObjectPrototype)]"

definition inherited :: "string \<Rightarrow> jsvalue" where
  "inherited k = (case map_of objectPrototype k of Some b \<Rightarrow> JBuiltin b | None \<Rightarrow> JUndefined)"

text \<open>\<open>literal[key]\<close> for an object literal whose own properties are strings.\<close>

definition lookupLiteral :: "(string \<times> string) list \<Rightarrow> string \<Rightarrow> jsvalue" where
  "lookupLiteral tbl k = (case map_of tbl k of Some v \<Rightarrow> JStr v | None \<Rightarrow> inherited k)"

text \<open>
  \<open>v.name\<close> for the five names the chat component reads (\<open>response_type\<close>,
  \<open>field_updates\<close>, \<open>message\<close>, \<open>field\<close>, \<open>value\<close>): reading a property of
  \<open>null\<close> or \<open>undefined\<close> throws; a primitive or an array has none of these names.
\<close>

fun getProp :: "jsvalue \<Rightarrow> string \<Rightarrow> error + jsvalue" where
  "getProp JUndefined k = Inl TypeError"
| "getProp JNull k = Inl TypeError"
| "getProp (JObj ps) k = Inr (case map_of ps k of Some v \<Rightarrow> v | None \<Rightarrow> inherited k)"
| "getProp v k = Inr JUndefined"

subsection \<open>Strings\<close>

definition isAscii :: "string \<Rightarrow> bool" where
  "isAscii s = list_all (\<lambda>c. c < CHR 0x80) s"

definition lowerChar :: "char \<Rightarrow> char" where
  "lowerChar c =
    (case map_of (zip ''ABCDEFGHIJKLMNOPQRSTUVWXYZ'' ''abcdefghijklmnopqrstuvwxyz'') c of
       Some d \<Rightarrow> d
     | None \<Rightarrow> c)"

text \<open>
  \<open>s.toLowerCase()\<close>: on ASCII text it folds the letters A to Z; the result for
  any other text is the platform's.
\<close>

definition toLowerCase :: "platform \<Rightarrow> string \<Rightarrow> string" where
  "toLowerCase pf s = (if isAscii s then map lowerChar s else unicodeLowerCase pf s)"

definition isWhiteSpace :: "char \<Rightarrow> bool" where
  "isWhiteSpace c = (c \<in> set [CHR 0x09, CHR 0x0A, CHR 0x0B, CHR 0x0C, CHR 0x0D, CHR 0x20])"

text \<open>
  \<open>s.trim()\<close>: on ASCII text it strips tab, line feed, vertical tab, form feed,
  carriage return and space from both ends; the result for any other text is the
  platform's.
\<close>

definition trim :: "platform \<Rightarrow> string \<Rightarrow> string" where
  "trim pf s =
    (if isAscii s then rev (dropWhile isWhiteSpace (rev (dropWhile isWhiteSpace s)))
     else unicodeTrim pf s)"

text \<open>
  \<open>String(v)\<close>, as a computed property key and a template literal apply it. A safe
  integer is printed in decimal; the text of any other integer is the platform's.
  The text of a built-in function is the engine's (here V8's). An object that has
  a property \<open>toString\<close> of its own (a JSON value, so not a function) cannot be
  converted: the conversion throws, also when the object is an element of an array.
\<close>

definition digitChar :: "nat \<Rightarrow> char" where
  "digitChar d = ''0123456789'' ! (d mod 10)"

fun digits :: "nat \<Rightarrow> string" where
  "digits n = (if n < 10 then [digitChar n] else digits (n div 10) @ [digitChar n])"

definition maxSafeInteger :: int where
  "maxSafeInteger = 9007199254740991"

definition numberToString :: "platform \<Rightarrow> int \<Rightarrow> string" where
  "numberToString pf n =
    (if - maxSafeInteger \<le> n \<and> n \<le> maxSafeInteger
     then (if n < 0 then ''-'' @ digits (nat (- n)) else digits (nat n))
     else numberText pf n)"

definition joinWith :: "string \<Rightarrow> string list \<Rightarrow> string" where
  "joinWith sep xs = (case xs of [] \<Rightarrow> [] | y # ys \<Rightarrow> foldl (\<lambda>acc z. acc @ sep @ z) y ys)"

fun sequenceE :: "(error + 'a) list \<Rightarrow> error + 'a list" where
  "sequenceE [] = Inr []"
| "sequenceE (x # xs) = bindE x (\<lambda>y. bindE (sequenceE xs) (\<lambda>ys. Inr (y # ys)))"

fun builtinToString :: "builtin \<Rightarrow> string" where
  "builtinToString (BuiltinFunction n) = ''function '' @ n @ ''() { [native code] }''"
| "builtinToString ObjectPrototype = ''[object Object]''"

fun toStringJS :: "platform \<Rightarrow> jsvalue \<Rightarrow> error + string" where
  "toStringJS pf JUndefined = Inr ''undefined''"
| "toStringJS pf JNull = Inr ''null''"
| "toStringJS pf (JBool b) = Inr (if b then ''true'' else ''false'')"
| "toStringJS pf (JNum n) = Inr (numberToString pf n)"
| "toStringJS pf (JStr s) = Inr s"
| "toStringJS pf (JArr xs) =
     bindE
       (sequenceE (map (\<lambda>x. if x = JNull \<or> x = JUndefined then Inr [] else toStringJS pf x) xs))
       (\<lambda>parts. Inr (joinWith '','' parts))"
| "toStringJS pf (JObj ps) =
     (case map_of ps ''toString'' of
        None \<Rightarrow> Inr ''[object Object]''
      | Some m \<Rightarrow> Inl TypeError)"
| "toStringJS pf (JBuiltin b) = Inr (builtinToString b)"

section \<open>The form component (HCPInteractionForm.js)\<close>

subsection \<open>Alias and value tables\<close>

text \<open>The three object literals of \<open>handleFormUpdate\<close>, in source order.\<close>

definition fieldMapping :: "(string \<times> string) list" where
  "fieldMapping =
    [(''sentiment'', ''hcpSentiment''),
     (''interaction_type'', ''interactionType''),
     (''summary'', ''outcomes''),
     (''key_discussion_points'', ''topicsDiscussed''),
     (''materials_shared'', ''materialsShared''),
     (''samples_distributed'', ''samplesDistributed''),
     (''follow_up_actions'', ''followUpActions''),
     (''attendees'', ''attendees''),
     (''date'', ''date''),
     (''time'', ''time''),
     (''hcp_name'', ''hcpName''),
     (''materials'', ''materialsShared''),
     (''samples'', ''samplesDistributed''),
     (''follow_up'', ''followUpActions''),
     (''topics'', ''topicsDiscussed''),
     (''discussion'', ''topicsDiscussed''),
     (''outcomes'', ''outcomes''),
     (''results'', ''outcomes''),
     (''type'', ''interactionType''),
     (''interaction_date'', ''date''),
     (''interaction_time'', ''time''),
     (''name'', ''hcpName''),
     (''doctor'', ''hcpName''),
     (''hcp'', ''hcpName''),
     (''feeling'', ''hcpSentiment''),
     (''mood'', ''hcpSentiment''),
     (''reaction'', ''hcpSentiment''),
     (''when'', ''date''),
     (''meeting_date'', ''date''),
     (''meeting_time'', ''time'')]"

definition sentimentMap :: "(string \<times> string) list" where
  "sentimentMap =
    [(''positive'', ''Positive''),
     (''good'', ''Positive''),
     (''happy'', ''Positive''),
     (''pleased'', ''Positive''),
     (''satisfied'', ''Positive''),
     (''neutral'', ''Neutral''),
     (''okay'', ''Neutral''),
     (''fine'', ''Neutral''),
     (''average'', ''Neutral''),
     (''negative'', ''Negative''),
     (''bad'', ''Negative''),
     (''unhappy'', ''Negative''),
     (''dissatisfied'', ''Negative''),
     (''concerned'', ''Negative'')]"

definition typeMap :: "(string \<times> string) list" where
  "typeMap =
    [(''meeting'', ''Meeting''),
     (''call'', ''Call''),
     (''phone'', ''Call''),
     (''email'', ''Email''),
     (''visit'', ''Visit''),
     (''conference'', ''Conference''),
     (''other'', ''Other'')]"

text \<open>The keys of the initial \<open>formData\<close> (the record schema), in source order.\<close>

definition canonicalFields :: "string list" where
  "canonicalFields =
    [''hcpName'', ''interactionType'', ''date'', ''time'', ''attendees'', ''topicsDiscussed'',
     ''materialsShared'', ''samplesDistributed'', ''hcpSentiment'', ''outcomes'',
     ''followUpActions'']"

subsection \<open>The field normalizer\<close>

text \<open>
  \<open>tbl[value.toLowerCase()] || value\<close>: calling \<open>toLowerCase\<close> on anything but a string
  throws a \<open>TypeError\<close>.
\<close>

definition transformValue ::
  "platform \<Rightarrow> (string \<times> string) list \<Rightarrow> jsvalue \<Rightarrow> error + jsvalue" where
  "transformValue pf tbl v =
    (case v of
       JStr s \<Rightarrow> Inr (orElse (lookupLiteral tbl (toLowerCase pf s)) v)
     | _ \<Rightarrow> Inl TypeError)"

text \<open>\<open>fieldMapping[field.toLowerCase()] || field\<close>, for a string \<open>field\<close>.\<close>

definition formFieldNameOf :: "platform \<Rightarrow> string \<Rightarrow> jsvalue" where
  "formFieldNameOf pf f = orElse (lookupLiteral fieldMapping (toLowerCase pf f)) (JStr f)"

text \<open>
  The pure part of \<open>handleFormUpdate\<close>: the key and the value it writes into
  \<open>formData\<close>, or the exception it throws before any state is set. The computed key
  \<open>[formFieldName]\<close> is the name converted to a string.
\<close>

definition normalizeField ::
  "platform \<Rightarrow> jsvalue \<Rightarrow> jsvalue \<Rightarrow> error + (string \<times> jsvalue)" where
  "normalizeField pf field v =
    (case field of
       JStr f \<Rightarrow>
         (let formFieldName = formFieldNameOf pf f in
          bindE
            (if formFieldName = JStr ''hcpSentiment'' then transformValue pf sentimentMap v
             else if formFieldName = JStr ''interactionType'' then transformValue pf typeMap v
             else Inr v)
            (\<lambda>transformedValue.
               bindE (toStringJS pf formFieldName) (\<lambda>k. Inr (k, transformedValue))))
     | _ \<Rightarrow> Inl TypeError)"

subsection \<open>Form state and the highlight timers\<close>

text \<open>
  \<open>formData\<close> and \<open>updatedFields\<close> are the component's state objects. \<open>now\<close> and
  \<open>timers\<close> are the event loop's clock (in ms) and the pending highlight callbacks
  of \<open>setTimeout\<close>, each with its due time and the field it clears.
\<close>

record form_state =
  formData :: "string \<rightharpoonup> jsvalue"
  updatedFields :: "string \<rightharpoonup> bool"
  isSubmitting :: bool
  now :: nat
  timers :: "(nat \<times> string) list"

definition highlightDuration :: nat where
  "highlightDuration = 3000"

definition writeField :: "string \<Rightarrow> jsvalue \<Rightarrow> form_state \<Rightarrow> form_state" where
  "writeField k v fs =
    fs\<lparr>formData := (formData fs)(k \<mapsto> v),
       updatedFields := (updatedFields fs)(k \<mapsto> True),
       timers := timers fs @ [(now fs + highlightDuration, k)]\<rparr>"

text \<open>
  The last statement of \<open>handleFormUpdate\<close> logs the template literal
  \<open>Form updated: ${field} -> ${formFieldName} = ${transformedValue}\<close>; building it
  converts the three values to strings, which can throw.
\<close>

definition formUpdatedLine :: "platform \<Rightarrow> jsvalue \<Rightarrow> string \<Rightarrow> jsvalue \<Rightarrow> error + string" where
  "formUpdatedLine pf field k tv =
    bindE (toStringJS pf field) (\<lambda>a.
    bindE (toStringJS pf tv) (\<lambda>b.
      Inr (''Form updated: '' @ a @ '' -> '' @ k @ '' = '' @ b)))"

text \<open>
  \<open>handleFormUpdate\<close>: the form state it leaves and the exception it throws, if any.
  An exception of the normalizer comes before any state is set; an exception of the
  log line comes after the three setters, whose updates stay.
\<close>

definition handleFormUpdate ::
  "platform \<Rightarrow> jsvalue \<Rightarrow> jsvalue \<Rightarrow> form_state \<Rightarrow> form_state \<times> error option" where
  "handleFormUpdate pf field v fs =
    (case normalizeField pf field v of
       Inl e \<Rightarrow> (fs, Some e)
     | Inr (k, tv) \<Rightarrow>
         (writeField k tv fs,
          (case formUpdatedLine pf field k tv of Inl e \<Rightarrow> Some e | Inr line \<Rightarrow> None)))"

text \<open>A timer callback: \<open>setUpdatedFields(prev => ({...prev, [formFieldName]: false}))\<close>.\<close>

definition clearHighlight :: "string \<Rightarrow> form_state \<Rightarrow> form_state" where
  "clearHighlight k fs = fs\<lparr>updatedFields := (updatedFields fs)(k \<mapsto> False)\<rparr>"

text \<open>
  Time passes: the clock advances by \<open>d\<close> ms and every callback that is due by then
  runs, in the order the timers were set.
\<close>

definition elapse :: "nat \<Rightarrow> form_state \<Rightarrow> form_state" where
  "elapse d fs =
    (let t = now fs + d;
         due = filter (\<lambda>(at, k). at \<le> t) (timers fs);
         pending = filter (\<lambda>(at, k). \<not> at \<le> t) (timers fs)
     in (foldl (\<lambda>s (at, k). clearHighlight k s) fs due)\<lparr>now := t, timers := pending\<rparr>)"

definition highlighted :: "form_state \<Rightarrow> string \<Rightarrow> bool" where
  "highlighted fs k = (updatedFields fs k = Some True)"

subsection \<open>Direct submission\<close>

definition readField :: "form_state \<Rightarrow> string \<Rightarrow> jsvalue" where
  "readField fs k = (case formData fs k of Some v \<Rightarrow> v | None \<Rightarrow> JUndefined)"

text \<open>
  The object literal \<open>interactionData\<close> of \<open>handleSubmit\<close>, in source order;
  \<open>n\<close> is the string \<open>formData.hcpName\<close>.
\<close>

definition interactionData ::
  "platform \<Rightarrow> string \<Rightarrow> form_state \<Rightarrow> (string \<times> jsvalue) list" where
  "interactionData pf n fs =
    [(''hcp_name'', JStr (trim pf n)),
     (''interaction_date'', readField fs ''date''),
     (''interaction_time'', readField fs ''time''),
     (''interaction_type'', readField fs ''interactionType''),
     (''attendees'', readField fs ''attendees''),
     (''summary'', readField fs ''outcomes''),
     (''key_discussion_points'', readField fs ''topicsDiscussed''),
     (''materials_shared'', readField fs ''materialsShared''),
     (''samples_distributed'', readField fs ''samplesDistributed''),
     (''sentiment'', readField fs ''hcpSentiment''),
     (''follow_up_actions'', readField fs ''followUpActions'')]"

text \<open>
  \<open>handleSubmit\<close> up to the dispatch: it returns without a request (a second click
  while submitting), blocks with an alert (validation), throws (\<open>trim\<close> of a name
  that is not a string), or dispatches \<open>logInteractionAsync\<close> with the payload.
\<close>

datatype submit_outcome =
    Ignored
  | Alert string
  | Dispatched "(string \<times> jsvalue) list"

definition handleSubmit :: "platform \<Rightarrow> form_state \<Rightarrow> error + submit_outcome" where
  "handleSubmit pf fs =
    (if isSubmitting fs then Inr Ignored
     else if \<not> truthy (readField fs ''hcpName'') then Inr (Alert ''Please enter an HCP name.'')
     else (case readField fs ''hcpName'' of
        JStr n \<Rightarrow>
          if trim pf n = [] then Inr (Alert ''Please enter an HCP name.'')
          else if \<not> truthy (readField fs ''interactionType'')
            then Inr (Alert ''Please select an interaction type.'')
          else Inr (Dispatched (interactionData pf n fs))
      | _ \<Rightarrow> Inl TypeError))"

section \<open>The store (interactionsSlice.js)\<close>

text \<open>
  A response of the chat endpoint, \<open>response.data\<close>. \<open>ref\<close> is the identity of the
  payload when it is an object or an array (which \<open>!==\<close> compares); a primitive has
  no identity and is compared by value.
\<close>

record response =
  ref :: nat
  payload :: jsvalue

fun isReference :: "jsvalue \<Rightarrow> bool" where
  "isReference (JArr xs) = True"
| "isReference (JObj ps) = True"
| "isReference (JBuiltin b) = True"
| "isReference v = False"

definition strictEq :: "response \<Rightarrow> response \<Rightarrow> bool" where
  "strictEq a b =
    (if isReference (payload a) \<or> isReference (payload b)
     then isReference (payload a) \<and> isReference (payload b) \<and> ref a = ref b
     else payload a = payload b)"

text \<open>
  The slice's \<open>chatResponse\<close> (\<open>None\<close> is the initial \<open>null\<close>), \<open>status\<close> and
  \<open>error\<close> (here \<open>storeError\<close>); the \<open>interactions\<close> list, which the chat thunk does
  not touch, is left out.
\<close>

record store =
  chatResponse :: "response option"
  status :: string
  storeError :: jsvalue

definition initialState :: store where
  "initialState = \<lparr>chatResponse = None, status = ''idle'', storeError = JNull\<rparr>"

datatype action = ChatPending | ChatFulfilled response | ChatRejected jsvalue

fun reducer :: "action \<Rightarrow> store \<Rightarrow> store" where
  "reducer ChatPending st = st\<lparr>status := ''loading''\<rparr>"
| "reducer (ChatFulfilled r) st = st\<lparr>status := ''succeeded'', chatResponse := Some r\<rparr>"
| "reducer (ChatRejected e) st = st\<lparr>status := ''failed'', storeError := e\<rparr>"

text \<open>
  How the HTTP request of \<open>chatWithAgent\<close> ends: with a response, or with an error
  that carries the server's \<open>error.response.data\<close> or (no response at all) nothing.
\<close>

datatype http_outcome = HttpOk response | HttpFailed "jsvalue option"

text \<open>
  The thunk \<open>chatWithAgentAsync\<close>: its payload creator returns \<open>response.data\<close> or
  \<open>rejectWithValue(error.response.data)\<close>; when there is no \<open>error.response\<close> the
  creator itself throws and the rejected action has no payload. Either way the thunk
  ends by dispatching an action, and the promise \<open>dispatch\<close> returned resolves with it.
\<close>

fun chatWithAgentAsync :: "http_outcome \<Rightarrow> action" where
  "chatWithAgentAsync (HttpOk r) = ChatFulfilled r"
| "chatWithAgentAsync (HttpFailed (Some d)) = ChatRejected d"
| "chatWithAgentAsync (HttpFailed None) = ChatRejected JUndefined"

section \<open>The chat component (AIAssistantChat)\<close>

datatype role = User | Assistant

text \<open>A chat message; the \<open>timestamp\<close> (the wall clock at insertion) is left out.\<close>

record message =
  msgType :: role
  content :: jsvalue
  isFormUpdate :: bool
  isError :: bool
  responseType :: "string option"
  isInitial :: bool

record chat_state =
  messages :: "message list"
  inputMessage :: string
  isLoading :: bool
  lastProcessedResponse :: "response option"

definition assistantMessage :: "jsvalue \<Rightarrow> message" where
  "assistantMessage c =
    \<lparr>msgType = Assistant, content = c, isFormUpdate = False, isError = False,
     responseType = None, isInitial = False\<rparr>"

definition userMessage :: "string \<Rightarrow> message" where
  "userMessage c =
    \<lparr>msgType = User, content = JStr c, isFormUpdate = False, isError = False,
     responseType = None, isInitial = False\<rparr>"

text \<open>The state the component mounts with; \<open>greeting\<close> is the text of the first message.\<close>

definition initialChat :: "string \<Rightarrow> chat_state" where
  "initialChat greeting =
    \<lparr>messages = [(assistantMessage (JStr greeting))\<lparr>isInitial := True\<rparr>],
     inputMessage = [], isLoading = False, lastProcessedResponse = None\<rparr>"

subsection \<open>The response effect\<close>

definition parseResponse :: "platform \<Rightarrow> jsvalue \<Rightarrow> jsvalue" where
  "parseResponse pf raw =
    (case raw of
       JStr s \<Rightarrow>
         (case jsonParse pf (JStr s) of
            Some v \<Rightarrow> v
          | None \<Rightarrow> JObj [(''message'', JStr s)])
     | _ \<Rightarrow> raw)"

text \<open>
  One call of the \<open>forEach\<close> callback of the populate branch: the arguments of the log
  line are read before the \<open>try\<close>, and whatever \<open>onFormUpdate\<close> throws is caught;
  the state it had set before it threw stays.
  \<open>onFormUpdate\<close> is \<open>handleFormUpdate\<close>, the only value the prop is given.
\<close>

definition updateGuarded :: "platform \<Rightarrow> jsvalue \<Rightarrow> form_state \<Rightarrow> error + form_state" where
  "updateGuarded pf u fs =
    bindE (getProp u ''field'') (\<lambda>f.
    bindE (getProp u ''value'') (\<lambda>v.
      case handleFormUpdate pf f v fs of (fs', thrown) \<Rightarrow> Inr fs'))"

fun applyFieldUpdates :: "platform \<Rightarrow> jsvalue list \<Rightarrow> form_state \<Rightarrow> error + form_state" where
  "applyFieldUpdates pf [] fs = Inr fs"
| "applyFieldUpdates pf (u # us) fs = bindE (updateGuarded pf u fs) (applyFieldUpdates pf us)"

text \<open>\<open>field_updates.forEach(...)\<close>: only an array has \<open>forEach\<close>.\<close>

definition forEachUpdate :: "platform \<Rightarrow> jsvalue \<Rightarrow> form_state \<Rightarrow> error + form_state" where
  "forEachUpdate pf fu fs =
    (case fu of JArr us \<Rightarrow> applyFieldUpdates pf us fs | _ \<Rightarrow> Inl TypeError)"

text \<open>
  The fallback of the populate branch reads the updates from \<open>message\<close>. Its callback
  has no \<open>try\<close> of its own: the first exception ends the loop, the enclosing
  \<open>catch\<close> swallows it, and the state set so far stays.
\<close>

fun applyUntilThrow :: "platform \<Rightarrow> jsvalue list \<Rightarrow> form_state \<Rightarrow> form_state" where
  "applyUntilThrow pf [] fs = fs"
| "applyUntilThrow pf (u # us) fs =
    (case getProp u ''field'' of
       Inl e \<Rightarrow> fs
     | Inr f \<Rightarrow>
         (case getProp u ''value'' of
            Inl e \<Rightarrow> fs
          | Inr v \<Rightarrow>
              (case handleFormUpdate pf f v fs of
                 (fs', None) \<Rightarrow> applyUntilThrow pf us fs'
               | (fs', Some e) \<Rightarrow> fs')))"

definition populateFromMessage :: "platform \<Rightarrow> jsvalue \<Rightarrow> form_state \<Rightarrow> form_state" where
  "populateFromMessage pf msg fs =
    (case jsonParse pf msg of
       None \<Rightarrow> fs
     | Some actualResponse \<Rightarrow>
         (case getProp actualResponse ''field_updates'' of
            Inl e \<Rightarrow> fs
          | Inr fu \<Rightarrow>
              if truthy fu then (case fu of JArr us \<Rightarrow> applyUntilThrow pf us fs | _ \<Rightarrow> fs)
              else fs))"

definition formPopulate :: "platform \<Rightarrow> jsvalue \<Rightarrow> form_state \<Rightarrow> error + form_state" where
  "formPopulate pf parsedResponse fs =
    bindE (getProp parsedResponse ''field_updates'') (\<lambda>fu.
      if truthy fu then forEachUpdate pf fu fs
      else bindE (getProp parsedResponse ''message'') (\<lambda>msg.
        if truthy msg then Inr (populateFromMessage pf msg fs) else Inr fs))"

text \<open>The update branch calls \<open>onFormUpdate\<close> with no \<open>try\<close>: what it throws escapes.\<close>

definition formUpdate :: "platform \<Rightarrow> jsvalue \<Rightarrow> form_state \<Rightarrow> error + form_state" where
  "formUpdate pf parsedResponse fs =
    bindE (getProp parsedResponse ''field'') (\<lambda>f.
    bindE (getProp parsedResponse ''value'') (\<lambda>v.
      if truthy f \<and> v \<noteq> JUndefined
      then (case handleFormUpdate pf f v fs of
              (fs', None) \<Rightarrow> Inr fs'
            | (fs', Some e) \<Rightarrow> Inl e)
      else Inr fs))"

definition populateMessage :: "jsvalue \<Rightarrow> message" where
  "populateMessage msg =
    (assistantMessage
       (orElse msg (JStr ''I've populated the form with your interaction information.'')))
     \<lparr>isFormUpdate := True, responseType := Some ''FORM_POPULATE''\<rparr>"

text \<open>
  \<open>parsedResponse.message || `Updated ${field} to "${value}"`\<close>: the template literal
  is built, and can throw, only when there is no message.
\<close>

definition updateMessage :: "platform \<Rightarrow> jsvalue \<Rightarrow> jsvalue \<Rightarrow> jsvalue \<Rightarrow> error + message" where
  "updateMessage pf msg f v =
    bindE
      (if truthy msg then Inr msg
       else bindE (toStringJS pf f) (\<lambda>a.
            bindE (toStringJS pf v) (\<lambda>b.
              Inr (JStr (''Updated '' @ a @ '' to '' @ [CHR 0x22] @ b @ [CHR 0x22])))))
      (\<lambda>text.
         Inr ((assistantMessage text)\<lparr>isFormUpdate := True, responseType := Some ''FORM_UPDATE''\<rparr>))"

definition errorMessage :: "jsvalue \<Rightarrow> message" where
  "errorMessage msg =
    (assistantMessage (orElse msg (JStr ''An error occurred'')))
     \<lparr>isError := True, responseType := Some ''ERROR''\<rparr>"

definition plainMessage :: "jsvalue \<Rightarrow> jsvalue \<Rightarrow> message" where
  "plainMessage parsedResponse msg =
    assistantMessage
      (orElse msg (case parsedResponse of JStr s \<Rightarrow> JStr s | _ \<Rightarrow> JStr ''Response received''))"

text \<open>The body of the effect, once its guard has let the response \<open>r\<close> through.\<close>

definition processResponse ::
  "platform \<Rightarrow> response \<Rightarrow> chat_state \<times> form_state \<Rightarrow> error + chat_state \<times> form_state" where
  "processResponse pf r st =
    (case st of (c, fs) \<Rightarrow>
      (let parsedResponse = parseResponse pf (payload r) in
       bindE (getProp parsedResponse ''response_type'') (\<lambda>rt.
       bindE (getProp parsedResponse ''message'') (\<lambda>msg.
       bindE
         (if rt = JStr ''FORM_POPULATE'' then
            bindE (formPopulate pf parsedResponse fs) (\<lambda>fs'. Inr (fs', populateMessage msg))
          else if rt = JStr ''FORM_UPDATE'' then
            bindE (formUpdate pf parsedResponse fs) (\<lambda>fs'.
            bindE (getProp parsedResponse ''field'') (\<lambda>f.
            bindE (getProp parsedResponse ''value'') (\<lambda>v.
            bindE (updateMessage pf msg f v) (\<lambda>m. Inr (fs', m)))))
          else if rt = JStr ''ERROR'' then Inr (fs, errorMessage msg)
          else Inr (fs, plainMessage parsedResponse msg))
         (\<lambda>(fs', m).
            Inr (c\<lparr>messages := messages c @ [m], isLoading := False,
                   lastProcessedResponse := Some r\<rparr>, fs'))))))"

text \<open>\<open>chatResponse && chatResponse !== lastProcessedResponse.current\<close>.\<close>

definition shouldProcess :: "response option \<Rightarrow> response option \<Rightarrow> bool" where
  "shouldProcess current lastProcessed =
    (case current of
       None \<Rightarrow> False
     | Some r \<Rightarrow>
         truthy (payload r) \<and> (case lastProcessed of None \<Rightarrow> True | Some l \<Rightarrow> \<not> strictEq r l))"

definition chatResponseEffect ::
  "platform \<Rightarrow> response option \<Rightarrow> chat_state \<times> form_state \<Rightarrow> error + chat_state \<times> form_state" where
  "chatResponseEffect pf current st =
    (case current of
       None \<Rightarrow> Inr st
     | Some r \<Rightarrow>
         if shouldProcess current (lastProcessedResponse (fst st))
         then processResponse pf r st
         else Inr st)"

subsection \<open>Sending a message\<close>

text \<open>
  The page: the chat component, the form it is embedded in, and the store's
  \<open>interactions\<close> slice.
\<close>

record app =
  chat :: chat_state
  form :: form_state
  slice :: store

text \<open>The initial \<open>formData\<close>; \<open>today\<close> and \<open>clock\<close> are the date and time at mount.\<close>

definition initialForm :: "string \<Rightarrow> string \<Rightarrow> form_state" where
  "initialForm today clock =
    \<lparr>formData = map_of
       [(''hcpName'', JStr []),
        (''interactionType'', JStr []),
        (''date'', JStr today),
        (''time'', JStr clock),
        (''attendees'', JStr []),
        (''topicsDiscussed'', JStr []),
        (''materialsShared'', JStr []),
        (''samplesDistributed'', JStr []),
        (''hcpSentiment'', JStr ''Neutral''),
        (''outcomes'', JStr []),
        (''followUpActions'', JStr [])],
     updatedFields = Map.empty, isSubmitting = False, now = 0, timers = []\<rparr>"

definition initialApp :: "string \<Rightarrow> string \<Rightarrow> string \<Rightarrow> app" where
  "initialApp greeting today clock =
    \<lparr>chat = initialChat greeting, form = initialForm today clock, slice = initialState\<rparr>"

text \<open>
  \<open>handleSendMessage\<close> up to the \<open>await\<close>: the gate, the user message, the loading
  flag, and the \<open>pending\<close> action the thunk dispatches at once.
\<close>

definition handleSendMessage :: "platform \<Rightarrow> app \<Rightarrow> app" where
  "handleSendMessage pf a =
    (if trim pf (inputMessage (chat a)) = [] \<or> isLoading (chat a) then a
     else a\<lparr>chat := (chat a)\<lparr>messages := messages (chat a) @ [userMessage (inputMessage (chat a))],
                             isLoading := True\<rparr>,
            slice := reducer ChatPending (slice a)\<rparr>)"

text \<open>
  What follows the \<open>await\<close>: the input is cleared when the promise resolves; the
  \<open>catch\<close> block runs when it rejects.
\<close>

datatype dispatch_result = Resolved action | Threw

fun afterDispatch :: "dispatch_result \<Rightarrow> chat_state \<Rightarrow> chat_state" where
  "afterDispatch (Resolved act) c = c\<lparr>inputMessage := []\<rparr>"
| "afterDispatch Threw c =
    c\<lparr>messages := messages c @
         [(assistantMessage (JStr ''Sorry, I encountered an error. Please try again.''))
            \<lparr>isError := True\<rparr>],
      isLoading := False\<rparr>"

text \<open>
  The request settles: the thunk dispatches its final action, the reducer stores it,
  the awaiting handler continues, and the effect sees the store's \<open>chatResponse\<close>.
  (The effect has \<open>chatResponse\<close> as dependency; run on an unchanged value its guard
  fails, so running it after every action is the same.)
\<close>

definition requestSettled :: "platform \<Rightarrow> http_outcome \<Rightarrow> app \<Rightarrow> error + app" where
  "requestSettled pf outcome a =
    (let act = chatWithAgentAsync outcome;
         slice' = reducer act (slice a);
         chat' = afterDispatch (Resolved act) (chat a)
     in bindE (chatResponseEffect pf (chatResponse slice') (chat', form a))
          (\<lambda>(c, f). Inr \<lparr>chat = c, form = f, slice = slice'\<rparr>))"

definition handleSentimentChange :: "string \<Rightarrow> form_state \<Rightarrow> form_state" where
  "handleSentimentChange sentiment fs = fs\<lparr>formData := (formData fs)(''hcpSentiment'' \<mapsto> JStr sentiment)\<rparr>"

text \<open>
  What can happen to the page. \<open>Settled n outcome\<close>: the request with ordinal \<open>n\<close>
  (the \<open>n\<close>-th message sent) settles. The ordinal is the request's identity
  on the side of the transport; neither the reducer nor the component reads it.
  The text area is disabled while a request is loading.
\<close>

datatype event =
    TypeInput string
  | Submit
  | Settled nat http_outcome
  | SelectSentiment string
  | Elapse nat

fun step :: "platform \<Rightarrow> event \<Rightarrow> app \<Rightarrow> error + app" where
  "step pf (TypeInput s) a =
    Inr (if isLoading (chat a) then a else a\<lparr>chat := (chat a)\<lparr>inputMessage := s\<rparr>\<rparr>)"
| "step pf Submit a = Inr (handleSendMessage pf a)"
| "step pf (Settled n outcome) a = requestSettled pf outcome a"
| "step pf (SelectSentiment s) a = Inr (a\<lparr>form := handleSentimentChange s (form a)\<rparr>)"
| "step pf (Elapse d) a = Inr (a\<lparr>form := elapse d (form a)\<rparr>)"

fun run :: "platform \<Rightarrow> event list \<Rightarrow> app \<Rightarrow> error + app" where
  "run pf [] a = Inr a"
| "run pf (e # es) a = bindE (step pf e a) (run pf es)"

text \<open>The number of requests issued so far: one per user message in the log.\<close>

definition requestsIssued :: "app \<Rightarrow> nat" where
  "requestsIssued a = length (filter (\<lambda>m. msgType m = User) (messages (chat a)))"

section \<open>Notions the properties are stated with\<close>

text \<open>Some alias of the table maps to the field \<open>c\<close>.\<close>

definition hasAlias :: "string \<Rightarrow> bool" where
  "hasAlias c = list_ex (\<lambda>(a, t). t = c) fieldMapping"

text \<open>
  An identity alias of \<open>c\<close>: an entry that maps the name \<open>c\<close> (up to case, as the
  lookup folds case) to \<open>c\<close>.
\<close>

definition hasIdentityAlias :: "platform \<Rightarrow> string \<Rightarrow> bool" where
  "hasIdentityAlias pf c =
    list_ex (\<lambda>(a, t). t = c \<and> toLowerCase pf a = toLowerCase pf c) fieldMapping"

text \<open>The form key the alias \<open>k\<close> resolves to.\<close>

definition resolvedKey :: "platform \<Rightarrow> string \<Rightarrow> string" where
  "resolvedKey pf k = (case toStringJS pf (formFieldNameOf pf k) of Inr c \<Rightarrow> c | Inl e \<Rightarrow> [])"

definition isNullish :: "jsvalue \<Rightarrow> bool" where
  "isNullish v = (v = JNull \<or> v = JUndefined)"

text \<open>
  What the update \<open>u\<close> of a \<open>field_updates\<close> list writes: the normalized pair, or
  nothing when reading or normalizing it throws.
\<close>

definition attemptedWrite :: "platform \<Rightarrow> jsvalue \<Rightarrow> (string \<times> jsvalue) option" where
  "attemptedWrite pf u =
    (case bindE (getProp u ''field'') (\<lambda>f.
          bindE (getProp u ''value'') (\<lambda>v. normalizeField pf f v)) of
       Inl e \<Rightarrow> None
     | Inr kv \<Rightarrow> Some kv)"

definition writeAll :: "(string \<times> jsvalue) list \<Rightarrow> form_state \<Rightarrow> form_state" where
  "writeAll kvs fs = foldl (\<lambda>s (k, v). writeField k v s) fs kvs"

text \<open>The update \<open>u\<close> does not write the field \<open>k\<close>.\<close>

definition leavesField :: "platform \<Rightarrow> string \<Rightarrow> jsvalue \<Rightarrow> bool" where
  "leavesField pf k u = (case attemptedWrite pf u of None \<Rightarrow> True | Some (k', v) \<Rightarrow> k' \<noteq> k)"

section \<open>Properties of the field normalizer and the alias table\<close>

lemma fieldMapping_targets: "map_of fieldMapping x = Some t \<Longrightarrow> t \<in> set canonicalFields"
  by (auto simp: fieldMapping_def canonicalFields_def split: if_splits)

lemma sentimentMap_targets:
  "map_of sentimentMap x = Some t \<Longrightarrow> t \<in> set [''Positive'', ''Neutral'', ''Negative'']"
  by (auto simp: sentimentMap_def split: if_splits)

lemma typeMap_targets:
  "map_of typeMap x = Some t \<Longrightarrow>
   t \<in> set [''Meeting'', ''Call'', ''Email'', ''Visit'', ''Conference'', ''Other'']"
  by (auto simp: typeMap_def split: if_splits)

lemma canonical_resolve:
  "\<forall>t \<in> set canonicalFields. t \<noteq> [] \<and> formFieldNameOf pf t = JStr t"
  by code_simp

lemma builtin_resolve:
  "\<forall>(k, b) \<in> set objectPrototype.
     formFieldNameOf pf (builtinToString b) = JStr (builtinToString b) \<and>
     builtinToString b \<noteq> ''hcpSentiment'' \<and> builtinToString b \<noteq> ''interactionType''"
  by code_simp

lemma sentiment_fix:
  "\<forall>t \<in> set [''Positive'', ''Neutral'', ''Negative''].
     t \<noteq> [] \<and> transformValue pf sentimentMap (JStr t) = Inr (JStr t)"
  by code_simp

lemma type_fix:
  "\<forall>t \<in> set [''Meeting'', ''Call'', ''Email'', ''Visit'', ''Conference'', ''Other''].
     t \<noteq> [] \<and> transformValue pf typeMap (JStr t) = Inr (JStr t)"
  by code_simp

lemma inherited_cases:
  "inherited k = JUndefined \<or> (\<exists>b. (k, b) \<in> set objectPrototype \<and> inherited k = JBuiltin b)"
  by (auto simp: inherited_def split: option.splits dest: map_of_SomeD)

text \<open>
  A resolved field name is a canonical field (through the table), a built-in (through
  the prototype), or the given name unchanged.
\<close>

lemma formFieldName_cases:
  "(\<exists>t \<in> set canonicalFields. formFieldNameOf pf f = JStr t) \<or>
   (\<exists>k b. (k, b) \<in> set objectPrototype \<and> formFieldNameOf pf f = JBuiltin b) \<or>
   formFieldNameOf pf f = JStr f"
proof (cases "map_of fieldMapping (toLowerCase pf f)")
  case None
  with inherited_cases[of "toLowerCase pf f"] show ?thesis
    by (auto simp: formFieldNameOf_def lookupLiteral_def orElse_def)
next
  case (Some t)
  with fieldMapping_targets[OF Some] canonical_resolve[of pf] show ?thesis
    by (auto simp: formFieldNameOf_def lookupLiteral_def orElse_def)
qed

lemma formFieldName_key: "\<exists>k. toStringJS pf (formFieldNameOf pf f) = Inr k"
  using formFieldName_cases[of pf f] by auto

lemma formFieldName_idem:
  assumes "toStringJS pf (formFieldNameOf pf f) = Inr k"
  shows "formFieldNameOf pf k = JStr k"
  using formFieldName_cases[of pf f] canonical_resolve[of pf] builtin_resolve[of pf] assms
  apply (elim disjE)
    apply (fastforce simp: formFieldNameOf_def)
   apply (fastforce simp: formFieldNameOf_def)
  apply auto
  done

lemma formFieldName_enum:
  assumes "toStringJS pf (formFieldNameOf pf f) = Inr k"
    and "X = ''hcpSentiment'' \<or> X = ''interactionType''"
  shows "(JStr k = JStr X) = (formFieldNameOf pf f = JStr X)"
  using formFieldName_cases[of pf f] builtin_resolve[of pf] assms
  by (elim disjE) fastforce+

lemma transformValue_idem:
  assumes "transformValue pf tbl (JStr v) = Inr w"
    and "inherited (toLowerCase pf v) = JUndefined"
    and "\<forall>t \<in> set ts. t \<noteq> [] \<and> transformValue pf tbl (JStr t) = Inr (JStr t)"
    and "\<And>x t. map_of tbl x = Some t \<Longrightarrow> t \<in> set ts"
  shows "transformValue pf tbl w = Inr w"
proof (cases "map_of tbl (toLowerCase pf v)")
  case None
  with assms(1,2) have "w = JStr v"
    by (simp add: transformValue_def lookupLiteral_def orElse_def)
  with assms(1) show ?thesis by simp
next
  case (Some t)
  with assms(4) have "t \<in> set ts" by blast
  with assms(3) have t: "t \<noteq> []" "transformValue pf tbl (JStr t) = Inr (JStr t)" by auto
  have "w = JStr t"
    using assms(1) Some t(1) by (simp add: transformValue_def lookupLiteral_def orElse_def)
  with t(2) show ?thesis by simp
qed

text \<open>
  Away from the two names every object literal inherits in lower case
  (\<open>constructor\<close> and \<open>__proto__\<close>), normalizing a pair of strings a second time
  returns the pair the first pass wrote.
\<close>

theorem normalizeField_idempotent_own:
  assumes "normalizeField pf (JStr f) (JStr v) = Inr (k, w)"
    and "inherited (toLowerCase pf v) = JUndefined"
  shows "normalizeField pf (JStr k) w = Inr (k, w)"
proof -
  let ?ff = "formFieldNameOf pf f"
  have k: "toStringJS pf ?ff = Inr k"
    using assms(1) formFieldName_key[of pf f]
    by (auto simp: normalizeField_def Let_def bindE_def split: sum.splits)
  have ff2: "formFieldNameOf pf k = JStr k"
    using formFieldName_idem[OF k] .
  have e1: "(JStr k = JStr ''hcpSentiment'') = (?ff = JStr ''hcpSentiment'')"
    using formFieldName_enum[OF k, of "''hcpSentiment''"] by simp
  have e2: "(JStr k = JStr ''interactionType'') = (?ff = JStr ''interactionType'')"
    using formFieldName_enum[OF k, of "''interactionType''"] by simp
  consider (sentiment) "?ff = JStr ''hcpSentiment''"
    | (itype) "?ff \<noteq> JStr ''hcpSentiment''" "?ff = JStr ''interactionType''"
    | (other) "?ff \<noteq> JStr ''hcpSentiment''" "?ff \<noteq> JStr ''interactionType''"
    by blast
  then show ?thesis
  proof cases
    case sentiment
    then have "transformValue pf sentimentMap (JStr v) = Inr w"
      using assms(1) by (auto simp: normalizeField_def Let_def bindE_def split: sum.splits)
    then have "transformValue pf sentimentMap w = Inr w"
      using transformValue_idem[OF _ assms(2) sentiment_fix] sentimentMap_targets by blast
    moreover have kk: "k = ''hcpSentiment''"
      using sentiment k by simp
    ultimately show ?thesis
      using ff2 by (simp add: normalizeField_def Let_def bindE_def)
  next
    case itype
    then have "transformValue pf typeMap (JStr v) = Inr w"
      using assms(1) by (auto simp: normalizeField_def Let_def bindE_def split: sum.splits)
    then have "transformValue pf typeMap w = Inr w"
      using transformValue_idem[OF _ assms(2) type_fix] typeMap_targets by blast
    moreover have kk: "k = ''interactionType''"
      using itype k by simp
    ultimately show ?thesis
      using ff2 by (simp add: normalizeField_def Let_def bindE_def)
  next
    case other
    then have "w = JStr v"
      using assms(1) by (auto simp: normalizeField_def Let_def bindE_def split: sum.splits)
    then show ?thesis
      using other k ff2 e1 e2 by (simp add: normalizeField_def Let_def bindE_def)
  qed
qed

theorem normalizeField_idempotent_own_witness:
  "normalizeField asciiPlatform (JStr ''Mood'') (JStr ''HAPPY'') =
     Inr (''hcpSentiment'', JStr ''Positive'') \<and>
   normalizeField asciiPlatform (JStr ''hcpSentiment'') (JStr ''Positive'') =
     Inr (''hcpSentiment'', JStr ''Positive'')"
proof -
  have first: "normalizeField asciiPlatform (JStr ''Mood'') (JStr ''HAPPY'') =
      Inr (''hcpSentiment'', JStr ''Positive'')"
    by code_simp
  have own: "inherited (toLowerCase asciiPlatform ''HAPPY'') = JUndefined"
    by code_simp
  show ?thesis
    using first normalizeField_idempotent_own[OF first own] by simp
qed

text \<open>
  C2 (idempotence of the normalizer, for every pair of strings). The value maps are object
  literals, so the lookup \<open>sentimentMap[value.toLowerCase()]\<close> also finds what the
  literal inherits. For the pair (\<open>sentiment\<close>, \<open>constructor\<close>) the first pass
  writes the function \<open>Object\<close> as the value of \<open>hcpSentiment\<close>; normalizing the
  written pair again throws a \<open>TypeError\<close>, so the second pass does not return the
  pair of the first.
\<close>

theorem normalizeField_inherited_value:
  "normalizeField pf (JStr ''sentiment'') (JStr ''constructor'') =
     Inr (''hcpSentiment'', JBuiltin (BuiltinFunction ''Object'')) \<and>
   normalizeField pf (JStr ''hcpSentiment'') (JBuiltin (BuiltinFunction ''Object'')) = Inl TypeError"
  by code_simp

text \<open>
  C3, as stated (every canonical field has an identity alias in the table): the table
  has no entry that maps the name \<open>hcpName\<close>, in any case, to \<open>hcpName\<close>.
\<close>

theorem hcpName_no_identity_alias: "\<not> hasIdentityAlias asciiPlatform ''hcpName''"
  by code_simp

text \<open>
  C3, amended: every canonical field is the target of at least one alias of the table,
  and the name of every canonical field resolves to itself; the table holds an
  identity entry for \<open>date\<close>, \<open>time\<close>, \<open>attendees\<close> and \<open>outcomes\<close> only, the other
  seven names are not keys of the table and resolve to themselves because an unknown
  alias falls through unchanged.
\<close>

theorem alias_closure:
  "list_all (\<lambda>c. hasAlias c \<and> formFieldNameOf pf c = JStr c) canonicalFields \<and>
   filter (hasIdentityAlias pf) canonicalFields = [''date'', ''time'', ''attendees'', ''outcomes''] \<and>
   filter (\<lambda>c. lookupLiteral fieldMapping (toLowerCase pf c) = JUndefined) canonicalFields =
     [''hcpName'', ''interactionType'', ''topicsDiscussed'', ''materialsShared'',
      ''samplesDistributed'', ''hcpSentiment'', ''followUpActions'']"
  by code_simp

section \<open>Properties of the form state\<close>

lemma writeAll_append: "writeAll (xs @ ys) fs = writeAll ys (writeAll xs fs)"
  by (simp add: writeAll_def)

lemma writeAll_formData_other:
  "k \<notin> fst ` set kvs \<Longrightarrow> formData (writeAll kvs fs) k = formData fs k"
  by (induction kvs arbitrary: fs) (auto simp: writeAll_def writeField_def)

lemma writeAll_highlight_kept:
  "updatedFields fs k = Some True \<Longrightarrow> updatedFields (writeAll kvs fs) k = Some True"
  by (induction kvs arbitrary: fs) (auto simp: writeAll_def writeField_def)

lemma clear_fold:
  "updatedFields (foldl (\<lambda>s (at, k). clearHighlight k s) fs due) k =
     (if k \<in> snd ` set due then Some False else updatedFields fs k)"
  by (induction due arbitrary: fs) (auto simp: clearHighlight_def)

text \<open>
  A single update: when no earlier timer of the field is pending, the field is
  highlighted at every instant before the highlight duration has passed since the
  update, and no longer once it has.
\<close>

theorem single_update_window:
  assumes "k \<notin> snd ` set (timers fs)"
  shows "highlighted (elapse d (writeField k v fs)) k = (d < highlightDuration)"
proof -
  have "(k \<in> snd ` set (filter (\<lambda>(at, k'). at \<le> now fs + d)
                          (timers fs @ [(now fs + highlightDuration, k)])))
        = (highlightDuration \<le> d)"
    using assms by (auto simp: image_iff)
  then show ?thesis
    by (auto simp: highlighted_def elapse_def Let_def clear_fold writeField_def)
qed

theorem single_update_window_witness:
  "highlighted
     (elapse 2999 (writeField ''hcpSentiment'' (JStr ''Positive'') (initialForm ''2025-01-01'' ''10:00'')))
     ''hcpSentiment'' \<and>
   \<not> highlighted
     (elapse 3000 (writeField ''hcpSentiment'' (JStr ''Positive'') (initialForm ''2025-01-01'' ''10:00'')))
     ''hcpSentiment''"
proof -
  have none: "''hcpSentiment'' \<notin> snd ` set (timers (initialForm ''2025-01-01'' ''10:00''))"
    by (simp add: initialForm_def)
  show ?thesis
    using single_update_window[OF none, of 2999 "JStr ''Positive''"]
          single_update_window[OF none, of 3000 "JStr ''Positive''"]
    by (simp add: highlightDuration_def)
qed

text \<open>
  C5 (an update keeps its field highlighted for the full duration; a second update
  restarts the timer). The code sets one independent timer per update and cancels
  none. The sentiment is updated at 0 ms and again at 2000 ms, neither call throwing:
  the field is highlighted after the second update, and at 3000 ms, 1000 ms into the
  second update's window, the first update's timer has cleared the highlight.
\<close>

theorem highlight_cleared_early:
  "(case handleFormUpdate pf (JStr ''sentiment'') (JStr ''good'') (initialForm ''2025-01-01'' ''10:00'') of
      (f1, thrown1) \<Rightarrow>
        thrown1 = None \<and>
        (case handleFormUpdate pf (JStr ''sentiment'') (JStr ''bad'') (elapse 2000 f1) of
           (f2, thrown2) \<Rightarrow>
             thrown2 = None \<and>
             now f2 = 2000 \<and> highlighted f2 ''hcpSentiment'' \<and>
             now (elapse 1000 f2) = 3000 \<and>
             \<not> highlighted (elapse 1000 f2) ''hcpSentiment''))"
  by code_simp

lemma wire_names:
  "map (resolvedKey pf)
     [''hcp_name'', ''interaction_date'', ''interaction_time'', ''interaction_type'',
      ''attendees'', ''summary'', ''key_discussion_points'', ''materials_shared'',
      ''samples_distributed'', ''sentiment'', ''follow_up_actions''] =
   [''hcpName'', ''date'', ''time'', ''interactionType'', ''attendees'', ''outcomes'',
    ''topicsDiscussed'', ''materialsShared'', ''samplesDistributed'', ''hcpSentiment'',
    ''followUpActions'']"
  by code_simp

lemma handleSubmit_dispatched:
  "handleSubmit pf fs = Inr (Dispatched p) \<Longrightarrow>
   \<exists>n. readField fs ''hcpName'' = JStr n \<and> trim pf n \<noteq> [] \<and>
       truthy (readField fs ''interactionType'') \<and> \<not> isSubmitting fs \<and>
       p = interactionData pf n fs"
  by (auto simp: handleSubmit_def split: if_splits jsvalue.splits)

text \<open>
  C9, as stated (the payload's keys are the canonical fields and its values are the
  form's): a fully populated form whose \<open>hcpName\<close> has surrounding blanks passes
  validation; the payload carries the name trimmed, under the key \<open>hcp_name\<close>, and
  has no key \<open>hcpName\<close>.
\<close>

theorem submit_payload_not_canonical:
  "(let fs = (initialForm ''2025-01-01'' ''10:00'')\<lparr>formData := map_of
         [(''hcpName'', JStr '' Dr. Smith ''), (''interactionType'', JStr ''Meeting''),
          (''date'', JStr ''2025-01-01''), (''time'', JStr ''10:00''),
          (''attendees'', JStr ''Dr. Jones''), (''topicsDiscussed'', JStr ''efficacy''),
          (''materialsShared'', JStr ''brochure''), (''samplesDistributed'', JStr ''two''),
          (''hcpSentiment'', JStr ''Positive''), (''outcomes'', JStr ''agreed''),
          (''followUpActions'', JStr ''call'')]\<rparr>
    in case handleSubmit asciiPlatform fs of
         Inr (Dispatched p) \<Rightarrow>
           readField fs ''hcpName'' = JStr '' Dr. Smith '' \<and>
           map_of p ''hcp_name'' = Some (JStr ''Dr. Smith'') \<and>
           map_of p ''hcpName'' = None \<and>
           ''hcp_name'' \<notin> set canonicalFields
       | other \<Rightarrow> False)"
  by code_simp

text \<open>
  C9, amended: when a form passes validation, the payload has exactly eleven keys, all
  distinct: the wire names \<open>hcp_name\<close>, \<open>interaction_date\<close>, \<open>interaction_time\<close>,
  \<open>interaction_type\<close>, \<open>attendees\<close>, \<open>summary\<close>, \<open>key_discussion_points\<close>,
  \<open>materials_shared\<close>, \<open>samples_distributed\<close>, \<open>sentiment\<close>, \<open>follow_up_actions\<close>.
  The alias table resolves them to the canonical fields, one key per field and every
  field once. Each value is the form's value of the field its key resolves to, except
  \<open>hcp_name\<close>, which carries \<open>hcpName\<close> trimmed.
\<close>

theorem submit_payload_round_trip:
  assumes "handleSubmit pf fs = Inr (Dispatched p)"
  shows "map fst p =
           [''hcp_name'', ''interaction_date'', ''interaction_time'', ''interaction_type'',
            ''attendees'', ''summary'', ''key_discussion_points'', ''materials_shared'',
            ''samples_distributed'', ''sentiment'', ''follow_up_actions'']
       \<and> distinct (map fst p)
       \<and> distinct (map (\<lambda>(k, v). resolvedKey pf k) p)
       \<and> set (map (\<lambda>(k, v). resolvedKey pf k) p) = set canonicalFields
       \<and> list_all (\<lambda>(k, v). v = (if k = ''hcp_name''
              then (case readField fs ''hcpName'' of JStr n \<Rightarrow> JStr (trim pf n) | w \<Rightarrow> w)
              else readField fs (resolvedKey pf k))) p"
proof -
  from handleSubmit_dispatched[OF assms] obtain n where
    n: "readField fs ''hcpName'' = JStr n" and p: "p = interactionData pf n fs" by blast
  have keys: "map fst p =
           [''hcp_name'', ''interaction_date'', ''interaction_time'', ''interaction_type'',
            ''attendees'', ''summary'', ''key_discussion_points'', ''materials_shared'',
            ''samples_distributed'', ''sentiment'', ''follow_up_actions'']"
    by (simp add: p interactionData_def)
  have res: "map (\<lambda>(k, v). resolvedKey pf k) p =
     [''hcpName'', ''date'', ''time'', ''interactionType'', ''attendees'', ''outcomes'',
      ''topicsDiscussed'', ''materialsShared'', ''samplesDistributed'', ''hcpSentiment'',
      ''followUpActions'']"
    using wire_names[of pf] by (simp add: p interactionData_def)
  have vals: "list_all (\<lambda>(k, v). v = (if k = ''hcp_name''
              then (case readField fs ''hcpName'' of JStr n \<Rightarrow> JStr (trim pf n) | w \<Rightarrow> w)
              else readField fs (resolvedKey pf k))) p"
    using wire_names[of pf] by (simp add: p interactionData_def n)
  have d1: "distinct (map fst p)"
    unfolding keys by simp
  have d2: "distinct (map (\<lambda>(k, v). resolvedKey pf k) p)"
    unfolding res by simp
  have s: "set (map (\<lambda>(k, v). resolvedKey pf k) p) = set canonicalFields"
    unfolding res canonicalFields_def by auto
  show ?thesis
    using keys d1 d2 s vals by blast
qed

theorem submit_payload_round_trip_witness:
  "handleSubmit asciiPlatform
      ((initialForm ''2025-01-01'' ''10:00'')\<lparr>formData := map_of
         [(''hcpName'', JStr ''Dr. Smith''), (''interactionType'', JStr ''Meeting''),
          (''date'', JStr ''2025-01-01''), (''time'', JStr ''10:00''),
          (''attendees'', JStr ''Dr. Jones''), (''topicsDiscussed'', JStr ''efficacy''),
          (''materialsShared'', JStr ''brochure''), (''samplesDistributed'', JStr ''two''),
          (''hcpSentiment'', JStr ''Positive''), (''outcomes'', JStr ''agreed''),
          (''followUpActions'', JStr ''call'')]\<rparr>) =
     Inr (Dispatched
     [(''hcp_name'', JStr ''Dr. Smith''), (''interaction_date'', JStr ''2025-01-01''),
      (''interaction_time'', JStr ''10:00''), (''interaction_type'', JStr ''Meeting''),
      (''attendees'', JStr ''Dr. Jones''), (''summary'', JStr ''agreed''),
      (''key_discussion_points'', JStr ''efficacy''), (''materials_shared'', JStr ''brochure''),
      (''samples_distributed'', JStr ''two''), (''sentiment'', JStr ''Positive''),
      (''follow_up_actions'', JStr ''call'')]) \<and>
   distinct (map fst
     [(''hcp_name'', JStr ''Dr. Smith''), (''interaction_date'', JStr ''2025-01-01''),
      (''interaction_time'', JStr ''10:00''), (''interaction_type'', JStr ''Meeting''),
      (''attendees'', JStr ''Dr. Jones''), (''summary'', JStr ''agreed''),
      (''key_discussion_points'', JStr ''efficacy''), (''materials_shared'', JStr ''brochure''),
      (''samples_distributed'', JStr ''two''), (''sentiment'', JStr ''Positive''),
      (''follow_up_actions'', JStr ''call'')]) \<and>
   set (map (\<lambda>(k, v). resolvedKey asciiPlatform k)
     [(''hcp_name'', JStr ''Dr. Smith''), (''interaction_date'', JStr ''2025-01-01''),
      (''interaction_time'', JStr ''10:00''), (''interaction_type'', JStr ''Meeting''),
      (''attendees'', JStr ''Dr. Jones''), (''summary'', JStr ''agreed''),
      (''key_discussion_points'', JStr ''efficacy''), (''materials_shared'', JStr ''brochure''),
      (''samples_distributed'', JStr ''two''), (''sentiment'', JStr ''Positive''),
      (''follow_up_actions'', JStr ''call'')]) = set canonicalFields"
proof -
  let ?fs = "((initialForm ''2025-01-01'' ''10:00'')\<lparr>formData := map_of
         [(''hcpName'', JStr ''Dr. Smith''), (''interactionType'', JStr ''Meeting''),
          (''date'', JStr ''2025-01-01''), (''time'', JStr ''10:00''),
          (''attendees'', JStr ''Dr. Jones''), (''topicsDiscussed'', JStr ''efficacy''),
          (''materialsShared'', JStr ''brochure''), (''samplesDistributed'', JStr ''two''),
          (''hcpSentiment'', JStr ''Positive''), (''outcomes'', JStr ''agreed''),
          (''followUpActions'', JStr ''call'')]\<rparr>)"
  let ?p = "[(''hcp_name'', JStr ''Dr. Smith''), (''interaction_date'', JStr ''2025-01-01''),
      (''interaction_time'', JStr ''10:00''), (''interaction_type'', JStr ''Meeting''),
      (''attendees'', JStr ''Dr. Jones''), (''summary'', JStr ''agreed''),
      (''key_discussion_points'', JStr ''efficacy''), (''materials_shared'', JStr ''brochure''),
      (''samples_distributed'', JStr ''two''), (''sentiment'', JStr ''Positive''),
      (''follow_up_actions'', JStr ''call'')]"
  have h: "handleSubmit asciiPlatform ?fs = Inr (Dispatched ?p)"
    by code_simp
  show ?thesis
    using h submit_payload_round_trip[OF h] by blast
qed

section \<open>Properties of the response effect\<close>

lemma getProp_total: "\<not> isNullish u \<Longrightarrow> \<exists>x. getProp u k = Inr x"
  by (cases u) (auto simp: isNullish_def)

lemma handleFormUpdate_state:
  "fst (handleFormUpdate pf f v fs) =
     (case normalizeField pf f v of Inl e \<Rightarrow> fs | Inr (k, tv) \<Rightarrow> writeField k tv fs)"
  by (simp add: handleFormUpdate_def split: sum.splits prod.splits)

lemma updateGuarded_attempt:
  "\<not> isNullish u \<Longrightarrow>
   updateGuarded pf u fs =
     Inr (case attemptedWrite pf u of None \<Rightarrow> fs | Some (k, v) \<Rightarrow> writeField k v fs)"
  using getProp_total[of u "''field''"] getProp_total[of u "''value''"]
  by (auto simp: updateGuarded_def attemptedWrite_def handleFormUpdate_def bindE_def
      split: sum.splits prod.splits)

text \<open>
  The guarded loop over updates none of which is \<open>null\<close>: it never throws, and it
  leaves the form as if the updates whose normalization throws were not in the list.
\<close>

lemma applyFieldUpdates_writeAll:
  "list_all (\<lambda>u. \<not> isNullish u) us \<Longrightarrow>
   applyFieldUpdates pf us fs = Inr (writeAll (List.map_filter (attemptedWrite pf) us) fs)"
proof (induction us arbitrary: fs)
  case Nil
  then show ?case by (simp add: writeAll_def List.map_filter_simps)
next
  case (Cons u us)
  then have u: "\<not> isNullish u" and us: "list_all (\<lambda>u. \<not> isNullish u) us"
    by simp_all
  show ?case
    by (cases "attemptedWrite pf u")
       (auto simp: updateGuarded_attempt[OF u] Cons.IH[OF us] bindE_def writeAll_def
          List.map_filter_simps)
qed

lemma applyFieldUpdates_append:
  "applyFieldUpdates pf (xs @ ys) fs =
     bindE (applyFieldUpdates pf xs fs) (applyFieldUpdates pf ys)"
  by (induction xs arbitrary: fs) (auto simp: bindE_def split: sum.splits)

text \<open>What a sequence of writes leaves: the last value per key, the flags, the timers.\<close>

lemma writeAll_explicit:
  "writeAll kvs fs =
     fs\<lparr>formData := formData fs ++ map_of (rev kvs),
        updatedFields := updatedFields fs ++ map_of (rev (map (\<lambda>(k, v). (k, True)) kvs)),
        timers := timers fs @ map (\<lambda>(k, v). (now fs + highlightDuration, k)) kvs\<rparr>"
proof (induction kvs arbitrary: fs)
  case Nil
  then show ?case by (simp add: writeAll_def)
next
  case (Cons kv kvs)
  obtain k v where kv: "kv = (k, v)" by (cases kv)
  have step: "writeAll (kv # kvs) fs = writeAll kvs (writeField k v fs)"
    by (simp add: writeAll_def kv)
  show ?case
    unfolding step Cons.IH
    by (simp add: kv writeField_def map_add_assoc[symmetric] map_add_upd_left)
qed

lemma map_filter_append:
  "List.map_filter f (xs @ ys) = List.map_filter f xs @ List.map_filter f ys"
  by (simp add: List.map_filter_def)

lemma leaves_not_written:
  "list_all (leavesField pf k) us \<Longrightarrow> k \<notin> fst ` set (List.map_filter (attemptedWrite pf) us)"
  by (induction us) (auto simp: List.map_filter_simps leavesField_def split: option.splits)

lemma shouldProcess_self: "\<not> shouldProcess (Some r) (Some r)"
  by (simp add: shouldProcess_def strictEq_def)

lemma shouldProcess_string:
  "payload r = JStr s \<Longrightarrow>
   shouldProcess (Some r) lp =
     (s \<noteq> [] \<and> (case lp of None \<Rightarrow> True | Some l \<Rightarrow> payload l \<noteq> JStr s))"
  by (cases lp) (auto simp: shouldProcess_def strictEq_def)

lemma processResponse_last:
  "processResponse pf r st = Inr st' \<Longrightarrow> lastProcessedResponse (fst st') = Some r"
  by (auto simp: processResponse_def bindE_def Let_def split: sum.splits prod.splits if_splits)

lemma effect_pass:
  "shouldProcess (Some r) (lastProcessedResponse c) \<Longrightarrow>
   chatResponseEffect pf (Some r) (c, fs) = processResponse pf r (c, fs)"
  by (simp add: chatResponseEffect_def)

lemma effect_skip:
  "\<not> shouldProcess (Some r) (lastProcessedResponse c) \<Longrightarrow>
   chatResponseEffect pf (Some r) (c, fs) = Inr (c, fs)"
  by (simp add: chatResponseEffect_def)

lemma inherited_names:
  "inherited ''response_type'' = JUndefined"
  "inherited ''message'' = JUndefined"
  "inherited ''field_updates'' = JUndefined"
  "inherited ''field'' = JUndefined"
  "inherited ''value'' = JUndefined"
  by code_simp+

text \<open>
  C1, as stated (an envelope of a request older than the newest issued one never
  mutates Form State). Two requests are issued and answered; the user then selects
  Negative. The answer to request 1 is delivered once more: the session applies it,
  and the sentiment the user selected is overwritten.
\<close>

theorem stale_envelope_applied:
  "(case run asciiPlatform
      [TypeInput ''met Dr. Smith, went well'', Submit,
       Settled 1 (HttpOk \<lparr>ref = 1, payload = JObj [(''response_type'', JStr ''FORM_UPDATE''),
          (''field'', JStr ''sentiment''), (''value'', JStr ''good''),
          (''message'', JStr ''done'')]\<rparr>),
       TypeInput ''thanks'', Submit,
       Settled 2 (HttpOk \<lparr>ref = 2, payload = JObj [(''message'', JStr ''ok'')]\<rparr>),
       SelectSentiment ''Negative'']
      (initialApp ''Hi!'' ''2025-01-01'' ''10:00'') of
    Inl e \<Rightarrow> False
  | Inr a \<Rightarrow>
      requestsIssued a = 2 \<and>
      formData (form a) ''hcpSentiment'' = Some (JStr ''Negative'') \<and>
      (case step asciiPlatform
         (Settled 1 (HttpOk \<lparr>ref = 1, payload = JObj [(''response_type'', JStr ''FORM_UPDATE''),
          (''field'', JStr ''sentiment''), (''value'', JStr ''good''),
          (''message'', JStr ''done'')]\<rparr>)) a of
         Inl e \<Rightarrow> False
       | Inr a' \<Rightarrow> formData (form a') ''hcpSentiment'' = Some (JStr ''Positive'')))"
  by code_simp

text \<open>
  C1, amended: the session keeps no request token; what it discards is a repeated
  delivery. When the response is the one it processed last (the same object, or an
  equal primitive), or is empty, the effect leaves Form State, the message log and
  the loading flag as they are; in particular a response delivered again right after
  it was processed changes nothing.
\<close>

theorem repeated_delivery_discarded:
  "(chatResponseEffect pf (Some r) st = Inr st' \<longrightarrow>
      chatResponseEffect pf (Some r) st' = Inr st')
   \<and> (lastProcessedResponse (fst st) = Some l \<and> strictEq r l \<longrightarrow>
      chatResponseEffect pf (Some r) st = Inr st)
   \<and> (\<not> truthy (payload r) \<longrightarrow> chatResponseEffect pf (Some r) st = Inr st)"
proof (intro conjI impI)
  assume a: "chatResponseEffect pf (Some r) st = Inr st'"
  show "chatResponseEffect pf (Some r) st' = Inr st'"
  proof (cases "shouldProcess (Some r) (lastProcessedResponse (fst st))")
    case True
    with a have "processResponse pf r st = Inr st'"
      by (simp add: chatResponseEffect_def)
    then have "lastProcessedResponse (fst st') = Some r"
      by (rule processResponse_last)
    then show ?thesis
      by (simp add: chatResponseEffect_def shouldProcess_self)
  next
    case False
    with a have "st' = st"
      by (simp add: chatResponseEffect_def)
    with False show ?thesis
      by (simp add: chatResponseEffect_def)
  qed
next
  assume "lastProcessedResponse (fst st) = Some l \<and> strictEq r l"
  then show "chatResponseEffect pf (Some r) st = Inr st"
    by (simp add: chatResponseEffect_def shouldProcess_def)
next
  assume "\<not> truthy (payload r)"
  then show "chatResponseEffect pf (Some r) st = Inr st"
    by (simp add: chatResponseEffect_def shouldProcess_def)
qed

theorem repeated_delivery_discarded_witness:
  "(case chatResponseEffect asciiPlatform
      (Some \<lparr>ref = 1, payload = JObj [(''response_type'', JStr ''FORM_UPDATE''),
          (''field'', JStr ''sentiment''), (''value'', JStr ''good''),
          (''message'', JStr ''done'')]\<rparr>)
      (initialChat ''Hi!'', initialForm ''2025-01-01'' ''10:00'') of
    Inl e \<Rightarrow> False
  | Inr st' \<Rightarrow>
      formData (snd st') ''hcpSentiment'' = Some (JStr ''Positive'') \<and>
      chatResponseEffect asciiPlatform
        (Some \<lparr>ref = 1, payload = JObj [(''response_type'', JStr ''FORM_UPDATE''),
          (''field'', JStr ''sentiment''), (''value'', JStr ''good''),
          (''message'', JStr ''done'')]\<rparr>) st' = Inr st' \<and>
      chatResponseEffect asciiPlatform (Some \<lparr>ref = 0, payload = JNull\<rparr>) st' = Inr st')"
proof -
  let ?r = "\<lparr>ref = 1, payload = JObj [(''response_type'', JStr ''FORM_UPDATE''),
          (''field'', JStr ''sentiment''), (''value'', JStr ''good''),
          (''message'', JStr ''done'')]\<rparr>"
  let ?st = "(initialChat ''Hi!'', initialForm ''2025-01-01'' ''10:00'')"
  have "case chatResponseEffect asciiPlatform (Some ?r) ?st of
          Inl e \<Rightarrow> False
        | Inr st' \<Rightarrow> formData (snd st') ''hcpSentiment'' = Some (JStr ''Positive'') \<and>
            lastProcessedResponse (fst st') = Some ?r"
    by code_simp
  then obtain st' where st': "chatResponseEffect asciiPlatform (Some ?r) ?st = Inr st'"
    and v: "formData (snd st') ''hcpSentiment'' = Some (JStr ''Positive'')"
    and l: "lastProcessedResponse (fst st') = Some ?r"
    by (auto split: sum.splits)
  have same: "strictEq ?r ?r"
    by code_simp
  from repeated_delivery_discarded[of asciiPlatform ?r ?st st'] st'
  have "chatResponseEffect asciiPlatform (Some ?r) st' = Inr st'"
    by blast
  moreover from repeated_delivery_discarded[of asciiPlatform ?r st' st' ?r] l same
  have "chatResponseEffect asciiPlatform (Some ?r) st' = Inr st'"
    by blast
  moreover from repeated_delivery_discarded[of asciiPlatform "\<lparr>ref = 0, payload = JNull\<rparr>" st' st' ?r]
  have "chatResponseEffect asciiPlatform (Some \<lparr>ref = 0, payload = JNull\<rparr>) st' = Inr st'"
    by simp
  ultimately show ?thesis
    using st' v by simp
qed

text \<open>
  C4: a new FORM_POPULATE envelope whose \<open>field_updates\<close> list contains the update
  (\<open>sentiment\<close>, \<open>good\<close>), with no \<open>null\<close> entry and no later update of the sentiment
  in the list, applied to any form state (the empty one included): the effect returns,
  \<open>hcpSentiment\<close> holds the canonical value \<open>Positive\<close>, the field is marked as
  recently updated and its expiry timer is pending, and the message appended to the
  log is the assistant message that describes the change: its content is the
  envelope's message (or, without one, the standard text that the form has been
  populated), marked as a form update of kind FORM_POPULATE. The alias and the value
  are normalized here, when the envelope is applied.
\<close>

theorem populate_sentiment_good:
  assumes "shouldProcess (Some r) (lastProcessedResponse c)"
    and "parseResponse pf (payload r) = JObj ps"
    and "map_of ps ''response_type'' = Some (JStr ''FORM_POPULATE'')"
    and "map_of ps ''field_updates'' = Some (JArr (pre @ [u] @ post))"
    and "getProp u ''field'' = Inr (JStr ''sentiment'')"
    and "getProp u ''value'' = Inr (JStr ''good'')"
    and "list_all (\<lambda>u. \<not> isNullish u) (pre @ post)"
    and "list_all (leavesField pf ''hcpSentiment'') post"
    and "getProp (JObj ps) ''message'' = Inr msg"
  shows "\<exists>c' fs'. chatResponseEffect pf (Some r) (c, fs) = Inr (c', fs')
           \<and> formData fs' ''hcpSentiment'' = Some (JStr ''Positive'')
           \<and> updatedFields fs' ''hcpSentiment'' = Some True
           \<and> (now fs + 3000, ''hcpSentiment'') \<in> set (timers fs')
           \<and> messages c' = messages c @
                [\<lparr>msgType = Assistant,
                 content = orElse msg (JStr ''I've populated the form with your interaction information.''),
                 isFormUpdate = True, isError = False, responseType = Some ''FORM_POPULATE'',
                 isInitial = False\<rparr>]"
proof -
  have aw: "attemptedWrite pf u = Some (''hcpSentiment'', JStr ''Positive'')"
  proof -
    have "normalizeField pf (JStr ''sentiment'') (JStr ''good'') = Inr (''hcpSentiment'', JStr ''Positive'')"
      by code_simp
    then show ?thesis
      using assms(5,6) by (simp add: attemptedWrite_def bindE_def)
  qed
  have nn: "\<not> isNullish u"
    using assms(5) by (cases u) (auto simp: isNullish_def)
  have all: "list_all (\<lambda>u. \<not> isNullish u) (pre @ [u] @ post)"
    using assms(7) nn by simp
  let ?A = "List.map_filter (attemptedWrite pf) pre"
  let ?B = "List.map_filter (attemptedWrite pf) post"
  let ?mid = "writeField ''hcpSentiment'' (JStr ''Positive'') (writeAll ?A fs)"
  let ?kvs = "List.map_filter (attemptedWrite pf) (pre @ [u] @ post)"
  let ?fs' = "writeAll ?kvs fs"
  have kvs: "?kvs = ?A @ [(''hcpSentiment'', JStr ''Positive'')] @ ?B"
    by (simp add: map_filter_append List.map_filter_simps aw)
  have fs': "?fs' = writeAll ?B ?mid"
    unfolding kvs by (simp add: writeAll_append) (simp add: writeAll_def)
  have notin: "''hcpSentiment'' \<notin> fst ` set ?B"
    using assms(8) by (rule leaves_not_written)
  have v: "formData ?fs' ''hcpSentiment'' = Some (JStr ''Positive'')"
    unfolding fs' using writeAll_formData_other[OF notin] by (simp add: writeField_def)
  have h: "updatedFields ?fs' ''hcpSentiment'' = Some True"
    unfolding fs' by (rule writeAll_highlight_kept) (simp add: writeField_def)
  have tm: "timers ?fs' = timers fs @ map (\<lambda>(k, v). (now fs + highlightDuration, k)) ?kvs"
    by (subst writeAll_explicit) simp
  have mem: "(''hcpSentiment'', JStr ''Positive'') \<in> set ?kvs"
    by (simp add: map_filter_append List.map_filter_simps aw)
  have t: "(now fs + 3000, ''hcpSentiment'') \<in> set (timers ?fs')"
    unfolding tm using mem by (force simp: highlightDuration_def)
  have eff: "chatResponseEffect pf (Some r) (c, fs) =
           Inr (c\<lparr>messages := messages c @ [populateMessage msg], isLoading := False,
                  lastProcessedResponse := Some r\<rparr>, ?fs')"
    using assms(1,2,3,4,9) all
    by (simp add: effect_pass processResponse_def bindE_def formPopulate_def forEachUpdate_def
        applyFieldUpdates_writeAll)
  show ?thesis
    using eff v h t by (simp add: populateMessage_def assistantMessage_def)
qed

theorem populate_sentiment_good_witness:
  "\<exists>c' fs'. chatResponseEffect asciiPlatform
        (Some \<lparr>ref = 1, payload = JObj [(''response_type'', JStr ''FORM_POPULATE''),
          (''field_updates'', JArr [JObj [(''field'', JStr ''sentiment''), (''value'', JStr ''good'')]]),
          (''message'', JStr ''ok'')]\<rparr>)
        (initialChat ''Hi!'', initialForm ''2025-01-01'' ''10:00'') = Inr (c', fs')
     \<and> formData fs' ''hcpSentiment'' = Some (JStr ''Positive'')
     \<and> updatedFields fs' ''hcpSentiment'' = Some True
     \<and> (3000, ''hcpSentiment'') \<in> set (timers fs')
     \<and> messages c' = messages (initialChat ''Hi!'') @
          [\<lparr>msgType = Assistant, content = JStr ''ok'', isFormUpdate = True, isError = False,
              responseType = Some ''FORM_POPULATE'', isInitial = False\<rparr>]"
proof -
  let ?u = "JObj [(''field'', JStr ''sentiment''), (''value'', JStr ''good'')]"
  let ?ps = "[(''response_type'', JStr ''FORM_POPULATE''), (''field_updates'', JArr [?u]),
              (''message'', JStr ''ok'')]"
  let ?r = "\<lparr>ref = 1, payload = JObj ?ps\<rparr>"
  have h1: "shouldProcess (Some ?r) (lastProcessedResponse (initialChat ''Hi!''))"
    by code_simp
  have h2: "parseResponse asciiPlatform (payload ?r) = JObj ?ps"
    by code_simp
  have h3: "map_of ?ps ''response_type'' = Some (JStr ''FORM_POPULATE'')"
    by simp
  have h4: "map_of ?ps ''field_updates'' = Some (JArr ([] @ [?u] @ []))"
    by simp
  have h5: "getProp ?u ''field'' = Inr (JStr ''sentiment'')"
    by simp
  have h6: "getProp ?u ''value'' = Inr (JStr ''good'')"
    by simp
  have h7: "list_all (\<lambda>u. \<not> isNullish u) ([] @ [])"
    by simp
  have h8: "list_all (leavesField asciiPlatform ''hcpSentiment'') []"
    by simp
  have h9: "getProp (JObj ?ps) ''message'' = Inr (JStr ''ok'')"
    by simp
  have n0: "now (initialForm ''2025-01-01'' ''10:00'') = 0"
    by (simp add: initialForm_def)
  show ?thesis
    using populate_sentiment_good[OF h1 h2 h3 h4 h5 h6 h7 h8 h9, of "initialForm ''2025-01-01'' ''10:00''"]
    by (simp add: n0 orElse_def)
qed

text \<open>
  C7, as stated (every string payload that is not JSON is surfaced as a message). The
  same plain text answers two requests in a row: the second answer is not appended
  and the loading flag stays set. An empty string is not appended either.
\<close>

theorem unparseable_string_not_surfaced:
  "(case run asciiPlatform
      [TypeInput ''hello'', Submit,
       Settled 1 (HttpOk \<lparr>ref = 0, payload = JStr ''I did not understand''\<rparr>),
       TypeInput ''hello?'', Submit,
       Settled 2 (HttpOk \<lparr>ref = 0, payload = JStr ''I did not understand''\<rparr>)]
      (initialApp ''Hi!'' ''2025-01-01'' ''10:00'') of
    Inl e \<Rightarrow> False
  | Inr a \<Rightarrow>
      map content (messages (chat a)) =
        [JStr ''Hi!'', JStr ''hello'', JStr ''I did not understand'', JStr ''hello?''] \<and>
      isLoading (chat a))
   \<and>
   (case run asciiPlatform
      [TypeInput ''hello'', Submit, Settled 1 (HttpOk \<lparr>ref = 0, payload = JStr []\<rparr>)]
      (initialApp ''Hi!'' ''2025-01-01'' ''10:00'') of
    Inl e \<Rightarrow> False
  | Inr a \<Rightarrow> map content (messages (chat a)) = [JStr ''Hi!'', JStr ''hello''])"
  by code_simp

text \<open>
  C7, amended: for every string payload that is not JSON, the effect raises no exception
  and leaves Form State as it is. When the string is not empty and is not the
  response processed last, exactly one plain assistant message whose content is the
  whole raw text is appended (and the loading flag is cleared). An empty string is
  ignored: nothing is appended.
\<close>

theorem unparseable_string_payload:
  assumes "payload r = JStr s" and "jsonParse pf (JStr s) = None"
  shows "(s \<noteq> [] \<and> (case lastProcessedResponse c of None \<Rightarrow> True | Some l \<Rightarrow> payload l \<noteq> JStr s) \<longrightarrow>
            chatResponseEffect pf (Some r) (c, fs) =
              Inr (c\<lparr>messages := messages c @ [assistantMessage (JStr s)], isLoading := False,
                     lastProcessedResponse := Some r\<rparr>, fs))
       \<and> (s = [] \<longrightarrow> chatResponseEffect pf (Some r) (c, fs) = Inr (c, fs))
       \<and> (\<exists>c'. chatResponseEffect pf (Some r) (c, fs) = Inr (c', fs))"
proof -
  have sp: "shouldProcess (Some r) (lastProcessedResponse c) =
      (s \<noteq> [] \<and> (case lastProcessedResponse c of None \<Rightarrow> True | Some l \<Rightarrow> payload l \<noteq> JStr s))"
    using assms(1) by (rule shouldProcess_string)
  have pr: "s \<noteq> [] \<Longrightarrow> processResponse pf r (c, fs) =
      Inr (c\<lparr>messages := messages c @ [assistantMessage (JStr s)], isLoading := False,
             lastProcessedResponse := Some r\<rparr>, fs)"
    using assms
    by (simp add: processResponse_def parseResponse_def bindE_def inherited_names
        plainMessage_def orElse_def)
  show ?thesis
  proof (cases "shouldProcess (Some r) (lastProcessedResponse c)")
    case True
    then show ?thesis
      using sp pr by (simp add: effect_pass)
  next
    case False
    then show ?thesis
      using sp by (auto simp: effect_skip)
  qed
qed

theorem unparseable_string_payload_witness:
  "chatResponseEffect asciiPlatform (Some \<lparr>ref = 0, payload = JStr ''I did not understand''\<rparr>)
      (initialChat ''Hi!'', initialForm ''2025-01-01'' ''10:00'') =
     Inr ((initialChat ''Hi!'')
            \<lparr>messages := messages (initialChat ''Hi!'') @ [assistantMessage (JStr ''I did not understand'')],
             isLoading := False,
             lastProcessedResponse := Some \<lparr>ref = 0, payload = JStr ''I did not understand''\<rparr>\<rparr>,
          initialForm ''2025-01-01'' ''10:00'')
   \<and> chatResponseEffect asciiPlatform (Some \<lparr>ref = 0, payload = JStr []\<rparr>)
      (initialChat ''Hi!'', initialForm ''2025-01-01'' ''10:00'') =
     Inr (initialChat ''Hi!'', initialForm ''2025-01-01'' ''10:00'')"
proof -
  let ?r = "\<lparr>ref = 0, payload = JStr ''I did not understand''\<rparr>"
  let ?e = "\<lparr>ref = 0, payload = JStr []\<rparr>"
  have p1: "payload ?r = JStr ''I did not understand''" and p2: "payload ?e = JStr []"
    by simp_all
  have n1: "jsonParse asciiPlatform (JStr ''I did not understand'') = None"
    and n2: "jsonParse asciiPlatform (JStr []) = None"
    by (simp_all add: asciiPlatform_def)
  have new: "lastProcessedResponse (initialChat ''Hi!'') = None"
    by (simp add: initialChat_def)
  show ?thesis
    using unparseable_string_payload[OF p1 n1, of "initialChat ''Hi!''" "initialForm ''2025-01-01'' ''10:00''"]
          unparseable_string_payload[OF p2 n2, of "initialChat ''Hi!''" "initialForm ''2025-01-01'' ''10:00''"]
    by (simp add: new)
qed

text \<open>
  C8: for every ERROR envelope the session processes, exactly one message is appended to
  the log, it is an assistant message flagged as error (its content the envelope's
  message or, without one, the standard error text), and Form State is the one
  before (the form-update path is not entered).
\<close>

theorem error_envelope_appends_message:
  assumes "shouldProcess (Some r) (lastProcessedResponse c)"
    and "parseResponse pf (payload r) = JObj ps"
    and "map_of ps ''response_type'' = Some (JStr ''ERROR'')"
    and "getProp (JObj ps) ''message'' = Inr msg"
  shows "chatResponseEffect pf (Some r) (c, fs) =
           Inr (c\<lparr>messages := messages c @ [errorMessage msg], isLoading := False,
                  lastProcessedResponse := Some r\<rparr>, fs)
         \<and> msgType (errorMessage msg) = Assistant \<and> isError (errorMessage msg)
         \<and> content (errorMessage msg) = orElse msg (JStr ''An error occurred'')
         \<and> responseType (errorMessage msg) = Some ''ERROR''"
  using assms
  by (simp add: effect_pass processResponse_def bindE_def errorMessage_def assistantMessage_def)

theorem error_envelope_appends_message_witness:
  "chatResponseEffect asciiPlatform
      (Some \<lparr>ref = 1, payload = JObj [(''response_type'', JStr ''ERROR''),
          (''message'', JStr ''Tool failed'')]\<rparr>)
      (initialChat ''Hi!'', initialForm ''2025-01-01'' ''10:00'') =
     Inr ((initialChat ''Hi!'')
            \<lparr>messages := messages (initialChat ''Hi!'') @ [errorMessage (JStr ''Tool failed'')],
             isLoading := False,
             lastProcessedResponse := Some \<lparr>ref = 1, payload = JObj [(''response_type'', JStr ''ERROR''),
          (''message'', JStr ''Tool failed'')]\<rparr>\<rparr>,
          initialForm ''2025-01-01'' ''10:00'')
   \<and> msgType (errorMessage (JStr ''Tool failed'')) = Assistant
   \<and> isError (errorMessage (JStr ''Tool failed''))
   \<and> content (errorMessage (JStr ''Tool failed'')) = JStr ''Tool failed''"
proof -
  let ?ps = "[(''response_type'', JStr ''ERROR''), (''message'', JStr ''Tool failed'')]"
  let ?r = "\<lparr>ref = 1, payload = JObj ?ps\<rparr>"
  have h1: "shouldProcess (Some ?r) (lastProcessedResponse (initialChat ''Hi!''))"
    by code_simp
  have h2: "parseResponse asciiPlatform (payload ?r) = JObj ?ps"
    by code_simp
  have h3: "map_of ?ps ''response_type'' = Some (JStr ''ERROR'')"
    by simp
  have h4: "getProp (JObj ?ps) ''message'' = Inr (JStr ''Tool failed'')"
    by simp
  show ?thesis
    using error_envelope_appends_message[OF h1 h2 h3 h4, of "initialForm ''2025-01-01'' ''10:00''"]
    by (simp add: orElse_def)
qed

text \<open>
  For a new FORM_POPULATE envelope whose \<open>field_updates\<close> is a list of updates, none of
  them \<open>null\<close>: the effect raises no exception. In the form it leaves, every key holds
  the value of the last update of the list that writes it (an update writes when its
  normalization does not throw) and is flagged as updated, with one timer per write;
  keys no update writes are as before. So an update that throws stops none of the
  others. The confirmation message is appended: an assistant message whose content
  is the envelope's message or the standard text, marked as a form update.
\<close>

theorem populate_isolates_failures:
  assumes "shouldProcess (Some r) (lastProcessedResponse c)"
    and "parseResponse pf (payload r) = JObj ps"
    and "map_of ps ''response_type'' = Some (JStr ''FORM_POPULATE'')"
    and "map_of ps ''field_updates'' = Some (JArr us)"
    and "list_all (\<lambda>u. \<not> isNullish u) us"
    and "getProp (JObj ps) ''message'' = Inr msg"
  shows "chatResponseEffect pf (Some r) (c, fs) =
           Inr (c\<lparr>messages := messages c @
                    [\<lparr>msgType = Assistant,
                     content = orElse msg (JStr ''I've populated the form with your interaction information.''),
                     isFormUpdate = True, isError = False, responseType = Some ''FORM_POPULATE'',
                     isInitial = False\<rparr>],
                  isLoading := False, lastProcessedResponse := Some r\<rparr>,
                fs\<lparr>formData := formData fs ++ map_of (rev (List.map_filter (attemptedWrite pf) us)),
                   updatedFields := updatedFields fs ++
                     map_of (rev (map (\<lambda>(k, v). (k, True)) (List.map_filter (attemptedWrite pf) us))),
                   timers := timers fs @
                     map (\<lambda>(k, v). (now fs + 3000, k)) (List.map_filter (attemptedWrite pf) us)\<rparr>)"
proof -
  have "chatResponseEffect pf (Some r) (c, fs) =
           Inr (c\<lparr>messages := messages c @ [populateMessage msg], isLoading := False,
                  lastProcessedResponse := Some r\<rparr>,
                writeAll (List.map_filter (attemptedWrite pf) us) fs)"
    using assms
    by (simp add: effect_pass processResponse_def bindE_def formPopulate_def forEachUpdate_def
        applyFieldUpdates_writeAll)
  then show ?thesis
    by (simp add: writeAll_explicit populateMessage_def assistantMessage_def highlightDuration_def)
qed

theorem populate_isolates_failures_witness:
  "attemptedWrite asciiPlatform (JObj [(''field'', JStr ''sentiment''), (''value'', JNum 5)]) = None \<and>
   (case chatResponseEffect asciiPlatform
      (Some \<lparr>ref = 1, payload = JObj [(''response_type'', JStr ''FORM_POPULATE''),
          (''field_updates'', JArr [JObj [(''field'', JStr ''sentiment''), (''value'', JNum 5)],
           JObj [(''field'', JStr ''hcp_name''), (''value'', JStr ''Dr. Smith'')]]),
          (''message'', JStr ''ok'')]\<rparr>)
      (initialChat ''Hi!'', initialForm ''2025-01-01'' ''10:00'') of
      Inl e \<Rightarrow> False
    | Inr (c', fs') \<Rightarrow>
        formData fs' ''hcpName'' = Some (JStr ''Dr. Smith'') \<and>
        formData fs' ''hcpSentiment'' = Some (JStr ''Neutral'') \<and>
        updatedFields fs' ''hcpName'' = Some True \<and>
        updatedFields fs' ''hcpSentiment'' = None \<and>
        timers fs' = [(3000, ''hcpName'')] \<and>
        messages c' = messages (initialChat ''Hi!'') @
          [\<lparr>msgType = Assistant, content = JStr ''ok'', isFormUpdate = True, isError = False,
                 responseType = Some ''FORM_POPULATE'', isInitial = False\<rparr>])"
proof -
  let ?us = "[JObj [(''field'', JStr ''sentiment''), (''value'', JNum 5)],
           JObj [(''field'', JStr ''hcp_name''), (''value'', JStr ''Dr. Smith'')]]"
  let ?ps = "[(''response_type'', JStr ''FORM_POPULATE''), (''field_updates'', JArr ?us),
              (''message'', JStr ''ok'')]"
  let ?r = "\<lparr>ref = 1, payload = JObj ?ps\<rparr>"
  have h1: "shouldProcess (Some ?r) (lastProcessedResponse (initialChat ''Hi!''))"
    by code_simp
  have h2: "parseResponse asciiPlatform (payload ?r) = JObj ?ps"
    by code_simp
  have h3: "map_of ?ps ''response_type'' = Some (JStr ''FORM_POPULATE'')"
    by simp
  have h4: "map_of ?ps ''field_updates'' = Some (JArr ?us)"
    by simp
  have h5: "list_all (\<lambda>u. \<not> isNullish u) ?us"
    by (simp add: isNullish_def)
  have h6: "getProp (JObj ?ps) ''message'' = Inr (JStr ''ok'')"
    by simp
  have throws: "attemptedWrite asciiPlatform (JObj [(''field'', JStr ''sentiment''), (''value'', JNum 5)]) = None"
    by code_simp
  have writes: "List.map_filter (attemptedWrite asciiPlatform) ?us = [(''hcpName'', JStr ''Dr. Smith'')]"
    by code_simp
  note th = populate_isolates_failures[OF h1 h2 h3 h4 h5 h6, of "initialForm ''2025-01-01'' ''10:00''",
      unfolded writes]
  show ?thesis
    using th throws
    by (simp add: orElse_def initialForm_def)
qed

text \<open>
  A \<open>null\<close> entry in \<open>field_updates\<close> is read before the \<open>try\<close> block: the effect
  throws, and neither the message nor the release of the loading flag is reached.
\<close>

theorem populate_null_entry_throws:
  assumes "shouldProcess (Some r) (lastProcessedResponse c)"
    and "parseResponse pf (payload r) = JObj ps"
    and "map_of ps ''response_type'' = Some (JStr ''FORM_POPULATE'')"
    and "map_of ps ''field_updates'' = Some (JArr (pre @ [JNull] @ post))"
    and "list_all (\<lambda>u. \<not> isNullish u) pre"
  shows "chatResponseEffect pf (Some r) (c, fs) = Inl TypeError"
proof -
  have "applyFieldUpdates pf (pre @ [JNull] @ post) fs = Inl TypeError"
    using applyFieldUpdates_writeAll[OF assms(5), of pf fs]
    by (simp add: applyFieldUpdates_append bindE_def updateGuarded_def)
  then show ?thesis
    using assms(1-4)
    by (simp add: effect_pass processResponse_def bindE_def formPopulate_def forEachUpdate_def)
qed

theorem populate_null_entry_throws_witness:
  "chatResponseEffect asciiPlatform
      (Some \<lparr>ref = 1, payload = JObj [(''response_type'', JStr ''FORM_POPULATE''),
          (''field_updates'', JArr [JNull]), (''message'', JStr ''ok'')]\<rparr>)
      (initialChat ''Hi!'', initialForm ''2025-01-01'' ''10:00'') = Inl TypeError"
proof -
  let ?ps = "[(''response_type'', JStr ''FORM_POPULATE''), (''field_updates'', JArr [JNull]),
              (''message'', JStr ''ok'')]"
  let ?r = "\<lparr>ref = 1, payload = JObj ?ps\<rparr>"
  have h1: "shouldProcess (Some ?r) (lastProcessedResponse (initialChat ''Hi!''))"
    by code_simp
  have h2: "parseResponse asciiPlatform (payload ?r) = JObj ?ps"
    by code_simp
  have h3: "map_of ?ps ''response_type'' = Some (JStr ''FORM_POPULATE'')"
    by simp
  have h4: "map_of ?ps ''field_updates'' = Some (JArr ([] @ [JNull] @ []))"
    by simp
  have h5: "list_all (\<lambda>u. \<not> isNullish u) []"
    by simp
  show ?thesis
    using populate_null_entry_throws[OF h1 h2 h3 h4 h5, of "initialForm ''2025-01-01'' ''10:00''"]
    by simp
qed

lemma applyUntilThrow_first:
  "attemptedWrite pf u = None \<Longrightarrow> applyUntilThrow pf (u # post) fs = fs"
  by (auto simp: attemptedWrite_def bindE_def handleFormUpdate_def split: sum.splits)

text \<open>
  The fallback of the populate branch (the updates are read from the JSON text in
  \<open>message\<close>) does not isolate failures: when the first update of the list throws,
  none of the updates after it is applied and the form stays as it was. The
  exception is swallowed and the confirmation message is appended.
\<close>

theorem fallback_stops_at_first_throw:
  assumes "shouldProcess (Some r) (lastProcessedResponse c)"
    and "parseResponse pf (payload r) = JObj ps"
    and "map_of ps ''response_type'' = Some (JStr ''FORM_POPULATE'')"
    and "map_of ps ''field_updates'' = None"
    and "map_of ps ''message'' = Some msg"
    and "truthy msg"
    and "jsonParse pf msg = Some (JObj qs)"
    and "map_of qs ''field_updates'' = Some (JArr (u # post))"
    and "attemptedWrite pf u = None"
  shows "chatResponseEffect pf (Some r) (c, fs) =
           Inr (c\<lparr>messages := messages c @ [populateMessage msg], isLoading := False,
                  lastProcessedResponse := Some r\<rparr>, fs)"
  using assms
  by (simp add: effect_pass processResponse_def bindE_def formPopulate_def inherited_names
      populateFromMessage_def applyUntilThrow_first del: applyUntilThrow.simps)

theorem fallback_stops_at_first_throw_witness:
  "chatResponseEffect
      (asciiPlatform\<lparr>jsonParse := (\<lambda>v.
          if v = JStr ''{\"field_updates\":[{\"field\":\"sentiment\",\"value\":5},{\"field\":\"hcp_name\",\"value\":\"Dr. Smith\"}]}''
          then Some (JObj [(''field_updates'', JArr
                  [JObj [(''field'', JStr ''sentiment''), (''value'', JNum 5)],
                   JObj [(''field'', JStr ''hcp_name''), (''value'', JStr ''Dr. Smith'')]])])
          else None)\<rparr>)
      (Some \<lparr>ref = 1, payload = JObj [(''response_type'', JStr ''FORM_POPULATE''),
          (''message'', JStr ''{\"field_updates\":[{\"field\":\"sentiment\",\"value\":5},{\"field\":\"hcp_name\",\"value\":\"Dr. Smith\"}]}'')]\<rparr>)
      (initialChat ''Hi!'', initialForm ''2025-01-01'' ''10:00'') =
     Inr ((initialChat ''Hi!'')
            \<lparr>messages := messages (initialChat ''Hi!'') @
               [populateMessage (JStr ''{\"field_updates\":[{\"field\":\"sentiment\",\"value\":5},{\"field\":\"hcp_name\",\"value\":\"Dr. Smith\"}]}'')],
             isLoading := False,
             lastProcessedResponse :=
               Some \<lparr>ref = 1, payload = JObj [(''response_type'', JStr ''FORM_POPULATE''),
                 (''message'', JStr ''{\"field_updates\":[{\"field\":\"sentiment\",\"value\":5},{\"field\":\"hcp_name\",\"value\":\"Dr. Smith\"}]}'')]\<rparr>\<rparr>,
          initialForm ''2025-01-01'' ''10:00'')
   \<and> formData (initialForm ''2025-01-01'' ''10:00'') ''hcpName'' = Some (JStr [])"
proof -
  let ?m = "JStr ''{\"field_updates\":[{\"field\":\"sentiment\",\"value\":5},{\"field\":\"hcp_name\",\"value\":\"Dr. Smith\"}]}''"
  let ?u = "JObj [(''field'', JStr ''sentiment''), (''value'', JNum 5)]"
  let ?post = "[JObj [(''field'', JStr ''hcp_name''), (''value'', JStr ''Dr. Smith'')]]"
  let ?qs = "[(''field_updates'', JArr (?u # ?post))]"
  let ?pf = "asciiPlatform\<lparr>jsonParse := (\<lambda>v. if v = ?m then Some (JObj ?qs) else None)\<rparr>"
  let ?ps = "[(''response_type'', JStr ''FORM_POPULATE''), (''message'', ?m)]"
  let ?r = "\<lparr>ref = 1, payload = JObj ?ps\<rparr>"
  have h1: "shouldProcess (Some ?r) (lastProcessedResponse (initialChat ''Hi!''))"
    by code_simp
  have h2: "parseResponse ?pf (payload ?r) = JObj ?ps"
    by (simp add: parseResponse_def)
  have h3: "map_of ?ps ''response_type'' = Some (JStr ''FORM_POPULATE'')"
    by simp
  have h4: "map_of ?ps ''field_updates'' = None"
    by simp
  have h5: "map_of ?ps ''message'' = Some ?m"
    by simp
  have h6: "truthy ?m"
    by simp
  have h7: "jsonParse ?pf ?m = Some (JObj ?qs)"
    by simp
  have h8: "map_of ?qs ''field_updates'' = Some (JArr (?u # ?post))"
    by simp
  have throws: "attemptedWrite p ?u = None" for p
    by code_simp
  have h9: "attemptedWrite ?pf ?u = None"
    by (rule throws)
  have "formData (initialForm ''2025-01-01'' ''10:00'') ''hcpName'' = Some (JStr [])"
    by (simp add: initialForm_def)
  then show ?thesis
    using fallback_stops_at_first_throw[OF h1 h2 h3 h4 h5 h6 h7 h8 h9,
        of "initialForm ''2025-01-01'' ''10:00''"]
    by simp
qed

text \<open>
  C10 (applying a FORM_POPULATE envelope isolates the failure of one update and never
  raises an exception). The \<open>try\<close> of the loop encloses the call of \<open>onFormUpdate\<close>
  only; the statement before it reads \<open>update.field\<close> for the log. For the list of a
  valid update, \<open>null\<close>, and the update (\<open>sentiment\<close>, \<open>good\<close>), on any platform, the
  effect throws a \<open>TypeError\<close>: the exception reaches the caller, the update after
  the \<open>null\<close> is not applied and no confirmation message is appended.
\<close>

theorem populate_null_entry_escapes:
  "(case chatResponseEffect pf
      (Some \<lparr>ref = 1, payload = JObj [(''response_type'', JStr ''FORM_POPULATE''),
          (''field_updates'', JArr [JObj [(''field'', JStr ''hcp_name''), (''value'', JStr ''Dr. Smith'')],
           JNull,
           JObj [(''field'', JStr ''sentiment''), (''value'', JStr ''good'')]]),
          (''message'', JStr ''ok'')]\<rparr>)
      (initialChat ''Hi!'', initialForm ''2025-01-01'' ''10:00'') of
      Inl e \<Rightarrow> e = TypeError
    | Inr st \<Rightarrow> False)"
  by code_simp

section \<open>Properties of the session\<close>

lemma message_kinds:
  "msgType (populateMessage m) = Assistant"
  "msgType (errorMessage m) = Assistant"
  "msgType (plainMessage p m) = Assistant"
  by (simp_all add: populateMessage_def errorMessage_def plainMessage_def
      assistantMessage_def)

lemma updateMessage_kind: "updateMessage pf m f v = Inr x \<Longrightarrow> msgType x = Assistant"
  by (auto simp: updateMessage_def bindE_def assistantMessage_def split: sum.splits if_splits)

text \<open>
  Whatever the kind of a response, once the effect has processed it without an
  exception the loading flag is cleared, the response is remembered as the last one
  processed, and the log has grown by exactly one assistant message.
\<close>

theorem processed_response_releases_gate:
  assumes "shouldProcess (Some r) (lastProcessedResponse c)"
    and "chatResponseEffect pf (Some r) (c, fs) = Inr (c', fs')"
  shows "\<not> isLoading c' \<and> lastProcessedResponse c' = Some r \<and>
         (\<exists>m. messages c' = messages c @ [m] \<and> msgType m = Assistant)"
proof -
  from assms have "processResponse pf r (c, fs) = Inr (c', fs')"
    by (simp add: chatResponseEffect_def)
  then obtain m where
    "c' = c\<lparr>messages := messages c @ [m], isLoading := False, lastProcessedResponse := Some r\<rparr>"
    and "msgType m = Assistant"
    by (auto simp: processResponse_def bindE_def Let_def message_kinds updateMessage_kind
        split: sum.splits if_splits)
  then show ?thesis
    by simp
qed

theorem processed_response_releases_gate_witness:
  "\<not> isLoading ((initialChat ''Hi!'')
        \<lparr>messages := messages (initialChat ''Hi!'') @ [plainMessage (JObj [(''message'', JStr ''ok'')]) (JStr ''ok'')],
         isLoading := False,
         lastProcessedResponse := Some \<lparr>ref = 2, payload = JObj [(''message'', JStr ''ok'')]\<rparr>\<rparr>) \<and>
   (\<exists>m. messages ((initialChat ''Hi!'')
        \<lparr>messages := messages (initialChat ''Hi!'') @ [plainMessage (JObj [(''message'', JStr ''ok'')]) (JStr ''ok'')],
         isLoading := False,
         lastProcessedResponse := Some \<lparr>ref = 2, payload = JObj [(''message'', JStr ''ok'')]\<rparr>\<rparr>)
      = messages (initialChat ''Hi!'') @ [m] \<and> msgType m = Assistant)"
proof -
  let ?r = "\<lparr>ref = 2, payload = JObj [(''message'', JStr ''ok'')]\<rparr>"
  let ?c' = "(initialChat ''Hi!'')
        \<lparr>messages := messages (initialChat ''Hi!'') @ [plainMessage (JObj [(''message'', JStr ''ok'')]) (JStr ''ok'')],
         isLoading := False, lastProcessedResponse := Some ?r\<rparr>"
  have h1: "shouldProcess (Some ?r) (lastProcessedResponse (initialChat ''Hi!''))"
    by code_simp
  have h2: "chatResponseEffect asciiPlatform (Some ?r)
              (initialChat ''Hi!'', initialForm ''2025-01-01'' ''10:00'') =
            Inr (?c', initialForm ''2025-01-01'' ''10:00'')"
    using h1
    by (simp add: effect_pass processResponse_def parseResponse_def bindE_def inherited_names Let_def)
  show ?thesis
    using processed_response_releases_gate[OF h1 h2] by blast
qed

text \<open>While a request is loading, submitting another message changes nothing.\<close>

theorem loading_gate_rejects_input:
  "isLoading (chat a) \<Longrightarrow> handleSendMessage pf a = a"
  by (simp add: handleSendMessage_def)

theorem loading_gate_rejects_input_witness:
  "handleSendMessage asciiPlatform
     ((initialApp ''Hi!'' ''2025-01-01'' ''10:00'')
        \<lparr>chat := (initialChat ''Hi!'')\<lparr>inputMessage := ''again'', isLoading := True\<rparr>\<rparr>) =
   (initialApp ''Hi!'' ''2025-01-01'' ''10:00'')
        \<lparr>chat := (initialChat ''Hi!'')\<lparr>inputMessage := ''again'', isLoading := True\<rparr>\<rparr>"
  using loading_gate_rejects_input
    [of "(initialApp ''Hi!'' ''2025-01-01'' ''10:00'')
           \<lparr>chat := (initialChat ''Hi!'')\<lparr>inputMessage := ''again'', isLoading := True\<rparr>\<rparr>" asciiPlatform]
  by simp

text \<open>
  C6 (after any error the session is idle again and the gate is released). A message is
  sent and the chat request fails with a server error: the thunk ends with the
  \<open>rejected\<close> action, the promise the handler awaits resolves, and its \<open>catch\<close>
  block does not run. The store is \<open>failed\<close>, no error message is appended, the
  loading flag stays set, and the next message the user submits is refused. The same
  holds when the request fails without any response.
\<close>

theorem rejected_request_stays_loading:
  "(case run pf
           [TypeInput ''hello'', Submit,
            Settled 1 (HttpFailed (Some (JObj [(''detail'', JStr ''Internal Server Error'')])))]
           (initialApp ''Hi!'' ''2025-01-01'' ''10:00'') of
      Inl e \<Rightarrow> False
    | Inr a \<Rightarrow>
        isLoading (chat a) \<and> status (slice a) = ''failed'' \<and>
        map content (messages (chat a)) = [JStr ''Hi!'', JStr ''hello''] \<and>
        (let a' = handleSendMessage pf (a\<lparr>chat := (chat a)\<lparr>inputMessage := ''again''\<rparr>\<rparr>)
         in isLoading (chat a') \<and>
            map content (messages (chat a')) = [JStr ''Hi!'', JStr ''hello'']))
   \<and>
   (case run pf [TypeInput ''hello'', Submit, Settled 1 (HttpFailed None)]
           (initialApp ''Hi!'' ''2025-01-01'' ''10:00'') of
      Inl e \<Rightarrow> False
    | Inr a \<Rightarrow>
        isLoading (chat a) \<and> status (slice a) = ''failed'' \<and>
        map content (messages (chat a)) = [JStr ''Hi!'', JStr ''hello''])"
  by code_simp

end
